theory Spec2Isabelle
  imports Main
begin

section \<open>Python values\<close>

text \<open>
  The values that \<^verbatim>\<open>tomllib.load\<close> and \<^verbatim>\<open>response.json()\<close> hand to the program:
  \<^verbatim>\<open>None\<close>, booleans, integers, strings, lists and dictionaries with string keys.
  A dictionary is an association list in insertion order; a parsed document has
  distinct keys, and \<open>map_of\<close> reads the first entry of a key. Floats and dates
  are left out. A \<open>char\<close> stands for a code point below 256.
\<close>

datatype py_value =
    VNone
  | VBool bool
  | VInt int
  | VStr string
  | VList "py_value list"
  | VDict "(string \<times> py_value) list"

text \<open>Truth value testing, as \<^verbatim>\<open>if x\<close>, \<^verbatim>\<open>x or y\<close> do it.\<close>

fun truthy :: "py_value \<Rightarrow> bool" where
  "truthy VNone = False"
| "truthy (VBool b) = b"
| "truthy (VInt i) = (i \<noteq> 0)"
| "truthy (VStr s) = (s \<noteq> [])"
| "truthy (VList xs) = (xs \<noteq> [])"
| "truthy (VDict kvs) = (kvs \<noteq> [])"

text \<open>The same test on an \<^verbatim>\<open>Optional[str]\<close>: \<^verbatim>\<open>None\<close> and \<^verbatim>\<open>""\<close> are false.\<close>

fun truthy_opt :: "string option \<Rightarrow> bool" where
  "truthy_opt None = False"
| "truthy_opt (Some s) = (s \<noteq> [])"

text \<open>\<^verbatim>\<open>a or b\<close> on optional strings: \<open>a\<close> when it is true, else \<open>b\<close> whatever it is.\<close>

definition py_or :: "string option \<Rightarrow> string option \<Rightarrow> string option" where
  "py_or a b = (if truthy_opt a then a else b)"

text \<open>\<^verbatim>\<open>a or d\<close> where the last operand \<open>d\<close> is a string: the result is a string.\<close>

definition py_or_str :: "string option \<Rightarrow> string \<Rightarrow> string" where
  "py_or_str a d = (case a of None \<Rightarrow> d | Some s \<Rightarrow> if s \<noteq> [] then s else d)"

subsection \<open>\<^verbatim>\<open>str\<close> and \<^verbatim>\<open>repr\<close>\<close>

definition digit_char :: "nat \<Rightarrow> char" where
  "digit_char d = ''0123456789abcdef'' ! d"

fun decimal :: "nat \<Rightarrow> string" where
  "decimal n = (if n < 10 then [digit_char n] else decimal (n div 10) @ [digit_char (n mod 10)])"

declare decimal.simps [simp del]

definition int_str :: "int \<Rightarrow> string" where
  "int_str i = (if i < 0 then CHR ''-'' # decimal (nat (- i)) else decimal (nat i))"

definition hex2 :: "nat \<Rightarrow> string" where
  "hex2 n = [digit_char (n div 16), digit_char (n mod 16)]"

text \<open>Printable code points below 256: not a control character, not the no-break
  space (160) and not the soft hyphen (173).\<close>

definition printable :: "char \<Rightarrow> bool" where
  "printable c = ((32 \<le> (of_char c :: nat) \<and> (of_char c :: nat) < 127)
                  \<or> (161 \<le> (of_char c :: nat) \<and> (of_char c :: nat) \<noteq> 173))"

definition repr_char :: "char \<Rightarrow> char \<Rightarrow> string" where
  "repr_char quote c =
     (if c = quote \<or> c = CHR 0x5C then [CHR 0x5C, c]
      else if c = CHR 0x09 then [CHR 0x5C, CHR ''t'']
      else if c = CHR 0x0A then [CHR 0x5C, CHR ''n'']
      else if c = CHR 0x0D then [CHR 0x5C, CHR ''r'']
      else if printable c then [c]
      else [CHR 0x5C, CHR ''x''] @ hex2 (of_char c))"

text \<open>\<^verbatim>\<open>repr\<close> of a string: single quotes, unless the string holds a single quote and
  no double quote.\<close>

definition str_quote :: "string \<Rightarrow> char" where
  "str_quote s = (if CHR 0x27 \<in> set s \<and> CHR 0x22 \<notin> set s then CHR 0x22 else CHR 0x27)"

definition repr_str :: "string \<Rightarrow> string" where
  "repr_str s = [str_quote s] @ concat (map (repr_char (str_quote s)) s) @ [str_quote s]"

fun join :: "string \<Rightarrow> string list \<Rightarrow> string" where
  "join sep [] = []"
| "join sep [x] = x"
| "join sep (x # y # ys) = x @ sep @ join sep (y # ys)"

fun py_repr :: "py_value \<Rightarrow> string" where
  "py_repr VNone = ''None''"
| "py_repr (VBool b) = (if b then ''True'' else ''False'')"
| "py_repr (VInt i) = int_str i"
| "py_repr (VStr s) = repr_str s"
| "py_repr (VList xs) = ''['' @ join '', '' (map py_repr xs) @ '']''"
| "py_repr (VDict kvs) =
     ''{'' @ join '', '' (map (\<lambda>(k, v). repr_str k @ '': '' @ py_repr v) kvs) @ ''}''"

text \<open>\<^verbatim>\<open>str(v)\<close>: a string is itself, every other value is its \<^verbatim>\<open>repr\<close>.\<close>

definition py_str :: "py_value \<Rightarrow> string" where
  "py_str v = (case v of VStr s \<Rightarrow> s | _ \<Rightarrow> py_repr v)"

definition isinstance_str :: "py_value \<Rightarrow> bool" where
  "isinstance_str v = (case v of VStr s \<Rightarrow> True | _ \<Rightarrow> False)"

definition isinstance_dict :: "py_value \<Rightarrow> bool" where
  "isinstance_dict v = (case v of VDict kvs \<Rightarrow> True | _ \<Rightarrow> False)"

text \<open>\<^verbatim>\<open>s.rstrip(chars)\<close>: every trailing character that is one of \<open>chars\<close> goes.\<close>

definition rstrip :: "string \<Rightarrow> string \<Rightarrow> string" where
  "rstrip chars s = rev (dropWhile (\<lambda>c. c \<in> set chars) (rev s))"

section \<open>Exceptions\<close>

datatype os_error =
    FileNotFoundError
  | FileExistsError
  | NotADirectoryError
  | IsADirectoryError
  | PermissionError
  | OtherOSError string

text \<open>
  Every exception the modelled code raises or lets through. \<open>AuthError\<close> is a subclass
  of \<open>APIError\<close> in the source; here the two are told apart by their constructor, and
  \<open>APIError\<close> stands for an instance of exactly that class. \<open>Exit\<close> is
  \<^verbatim>\<open>typer.Exit(code)\<close>, \<open>InvalidURL\<close> is \<^verbatim>\<open>httpx.InvalidURL\<close>.
\<close>

datatype py_exception =
    OSError os_error
  | TOMLDecodeError string
  | AttributeError
  | RuntimeError string
  | RequestError string
  | NetworkError string
  | AuthError int string
  | APIError int string py_value
  | Exit int
  | ConfigWriteError os_error
  | UnicodeEncodeError
  | InvalidURL string

section \<open>Files and environment variables\<close>

text \<open>
  A path is the list of its components under the root, so every path is absolute. A
  file system maps paths to directories and files; \<open>fault\<close> is the operating
  system refusing an operation whatever the tree looks like (permission denied, disk
  full). \<open>OpStat p\<close> is the refusal to resolve the path \<open>p\<close> at all, as for a path
  under a directory without search permission: \<^verbatim>\<open>stat\<close> fails with it, and so does
  every other operation on \<open>p\<close>, which resolves the path first. The root is a
  directory.
\<close>

type_synonym path = "string list"

datatype node = Dir | File string

datatype fs_op = OpStat path | OpMkdir path | OpOpen path | OpWrite path

record filesystem =
  nodes :: "path \<Rightarrow> node option"
  fault :: "fs_op \<Rightarrow> os_error option"

type_synonym environ = "string \<Rightarrow> string option"

definition node_at :: "filesystem \<Rightarrow> path \<Rightarrow> node option" where
  "node_at fs p = (if p = [] then Some Dir else nodes fs p)"

text \<open>The tree has a directory at \<open>p\<close>.\<close>

definition is_dir :: "filesystem \<Rightarrow> path \<Rightarrow> bool" where
  "is_dir fs p = (node_at fs p = Some Dir)"

definition parent :: "path \<Rightarrow> path" where
  "parent p = butlast p"

text \<open>
  The errors of \<^verbatim>\<open>stat\<close> that pathlib takes for "not there" (\<^verbatim>\<open>_ignore_error\<close>):
  \<^verbatim>\<open>ENOENT\<close>, \<^verbatim>\<open>ENOTDIR\<close>, \<^verbatim>\<open>EBADF\<close> and \<^verbatim>\<open>ELOOP\<close>. An \<open>OtherOSError\<close> carries
  the name of its error number.
\<close>

definition ignore_error :: "os_error \<Rightarrow> bool" where
  "ignore_error e =
     (e = FileNotFoundError \<or> e = NotADirectoryError
      \<or> e = OtherOSError ''EBADF'' \<or> e = OtherOSError ''ELOOP'')"

text \<open>\<^verbatim>\<open>os.stat(p)\<close>: the node at \<open>p\<close>, or the error.\<close>

definition os_stat :: "filesystem \<Rightarrow> path \<Rightarrow> os_error + node" where
  "os_stat fs p =
     (case fault fs (OpStat p) of
        Some e \<Rightarrow> Inl e
      | None \<Rightarrow>
          (case node_at fs p of
             None \<Rightarrow> Inl FileNotFoundError
           | Some n \<Rightarrow> Inr n))"

text \<open>
  \<^verbatim>\<open>path.exists()\<close> and \<^verbatim>\<open>path.is_dir()\<close> of pathlib, up to Python 3.13: an error
  of \<^verbatim>\<open>stat\<close> that is not one of the ignored ones is raised again.
\<close>

definition path_exists :: "filesystem \<Rightarrow> path \<Rightarrow> os_error + bool" where
  "path_exists fs p =
     (case os_stat fs p of
        Inl e \<Rightarrow> if ignore_error e then Inr False else Inl e
      | Inr n \<Rightarrow> Inr True)"

definition Path_is_dir :: "filesystem \<Rightarrow> path \<Rightarrow> os_error + bool" where
  "Path_is_dir fs p =
     (case os_stat fs p of
        Inl e \<Rightarrow> if ignore_error e then Inr False else Inl e
      | Inr n \<Rightarrow> Inr (n = Dir))"

text \<open>\<^verbatim>\<open>path.open("rb")\<close> followed by reading the whole file.\<close>

definition open_read :: "filesystem \<Rightarrow> path \<Rightarrow> os_error + string" where
  "open_read fs p =
     (case fault fs (OpStat p) of
        Some e \<Rightarrow> Inl e
      | None \<Rightarrow>
          (case fault fs (OpOpen p) of
             Some e \<Rightarrow> Inl e
           | None \<Rightarrow>
               (case node_at fs p of
                  None \<Rightarrow> Inl FileNotFoundError
                | Some Dir \<Rightarrow> Inl IsADirectoryError
                | Some (File t) \<Rightarrow> Inr t)))"

text \<open>\<^verbatim>\<open>os.mkdir(p)\<close>.\<close>

definition os_mkdir :: "filesystem \<Rightarrow> path \<Rightarrow> os_error + filesystem" where
  "os_mkdir fs p =
     (case fault fs (OpStat p) of
        Some e \<Rightarrow> Inl e
      | None \<Rightarrow>
          (case fault fs (OpMkdir p) of
             Some e \<Rightarrow> Inl e
           | None \<Rightarrow>
               if node_at fs p \<noteq> None then Inl FileExistsError
               else (case node_at fs (parent p) of
                       None \<Rightarrow> Inl FileNotFoundError
                     | Some (File t) \<Rightarrow> Inl NotADirectoryError
                     | Some Dir \<Rightarrow> Inr (fs\<lparr>nodes := (nodes fs)(p \<mapsto> Dir)\<rparr>))))"

text \<open>
  \<^verbatim>\<open>Path.mkdir(parents, exist_ok)\<close> of pathlib: try \<^verbatim>\<open>os.mkdir\<close>; when the parent
  is missing and \<open>parents\<close> is set, make the parent (with both flags set) and try once
  more without \<open>parents\<close>; any other error is passed over when \<open>exist_ok\<close> is set and
  \<^verbatim>\<open>is_dir()\<close> says the path is a directory. \<^verbatim>\<open>is_dir()\<close> may raise itself.
\<close>

function Path_mkdir :: "filesystem \<Rightarrow> path \<Rightarrow> bool \<Rightarrow> bool \<Rightarrow> os_error + filesystem" where
  "Path_mkdir fs p parents exist_ok =
     (case os_mkdir fs p of
        Inr fs' \<Rightarrow> Inr fs'
      | Inl e \<Rightarrow>
          if e = FileNotFoundError then
            (if \<not> parents \<or> parent p = p then Inl e
             else (case Path_mkdir fs (parent p) True True of
                     Inl e' \<Rightarrow> Inl e'
                   | Inr fs1 \<Rightarrow> Path_mkdir fs1 p False exist_ok))
          else if \<not> exist_ok then Inl e
          else (case Path_is_dir fs p of
                  Inl e' \<Rightarrow> Inl e'
                | Inr d \<Rightarrow> if d then Inr fs else Inl e))"
  by pat_completeness auto
termination
proof (relation "measures [\<lambda>(fs, p, parents, exist_ok). length p,
                          \<lambda>(fs, p, parents, exist_ok). if parents then 1 else 0]")
  show "wf (measures [\<lambda>(fs, p, parents, exist_ok). length p,
                      \<lambda>(fs, p, parents, exist_ok). if parents then 1 else (0::nat)])"
    by simp
next
  fix fs :: filesystem and p :: path and parents exist_ok :: bool and e :: os_error
  assume "\<not> (\<not> parents \<or> parent p = p)"
  then have "p \<noteq> []"
    by (auto simp: parent_def)
  then show "((fs, parent p, True, True), (fs, p, parents, exist_ok))
      \<in> measures [\<lambda>(fs, p, parents, exist_ok). length p,
                  \<lambda>(fs, p, parents, exist_ok). if parents then 1 else (0::nat)]"
    by (simp add: parent_def)
next
  fix fs fs1 :: filesystem and p :: path and parents exist_ok :: bool and e :: os_error
  assume "\<not> (\<not> parents \<or> parent p = p)"
  then show "((fs1, p, False, exist_ok), (fs, p, parents, exist_ok))
      \<in> measures [\<lambda>(fs, p, parents, exist_ok). length p,
                  \<lambda>(fs, p, parents, exist_ok). if parents then 1 else (0::nat)]"
    by simp
qed

declare Path_mkdir.simps [simp del]

text \<open>\<^verbatim>\<open>path.write_text(data)\<close>: the file is created or replaced. A failed write leaves
  the tree as it was.\<close>

definition write_text :: "filesystem \<Rightarrow> path \<Rightarrow> string \<Rightarrow> os_error + filesystem" where
  "write_text fs p data =
     (case fault fs (OpStat p) of
        Some e \<Rightarrow> Inl e
      | None \<Rightarrow>
          (case fault fs (OpWrite p) of
             Some e \<Rightarrow> Inl e
           | None \<Rightarrow>
               (case node_at fs p of
                  Some Dir \<Rightarrow> Inl IsADirectoryError
                | _ \<Rightarrow>
                    (case node_at fs (parent p) of
                       None \<Rightarrow> Inl FileNotFoundError
                     | Some (File t) \<Rightarrow> Inl NotADirectoryError
                     | Some Dir \<Rightarrow> Inr (fs\<lparr>nodes := (nodes fs)(p \<mapsto> File data)\<rparr>)))))"

text \<open>\<^verbatim>\<open>v.get(key, default)\<close>: only a dictionary has the method.\<close>

definition value_get :: "py_value \<Rightarrow> string \<Rightarrow> py_value \<Rightarrow> py_exception + py_value" where
  "value_get v key dflt =
     (case v of
        VDict kvs \<Rightarrow> Inr (case map_of kvs key of None \<Rightarrow> dflt | Some x \<Rightarrow> x)
      | _ \<Rightarrow> Inl AttributeError)"

text \<open>\<^verbatim>\<open>d.get(key)\<close> on a \<^verbatim>\<open>Dict[str, Optional[str]]\<close>.\<close>

definition opt_get :: "(string \<times> string option) list \<Rightarrow> string \<Rightarrow> string option" where
  "opt_get d key = (case map_of d key of None \<Rightarrow> None | Some x \<Rightarrow> x)"

text \<open>\<^verbatim>\<open>str(x) if x is not None else None\<close>.\<close>

definition str_unless_none :: "py_value \<Rightarrow> string option" where
  "str_unless_none x = (if x \<noteq> VNone then Some (py_str x) else None)"


section \<open>openrsvp_cli/config.py\<close>

text \<open>
  \<^verbatim>\<open>tomllib.load\<close> is the library's parser, taken as the parameter \<open>toml_load\<close>: the
  parsed document, or the exception it raises. \<^verbatim>\<open>Path.home()\<close> is the parameter
  \<open>home\<close>. Python names that start with an underscore lose it here.
\<close>

definition CONFIG_PATH :: "path \<Rightarrow> path" where
  "CONFIG_PATH home = home @ [''.openrsvp'', ''config.toml'']"

text \<open>
  \<^verbatim>\<open>_read_config_file(path)\<close>. The existence test comes first and is not guarded:
  what \<^verbatim>\<open>path.exists()\<close> raises leaves the function. A missing file gives the empty
  dictionary. Opening and parsing run under \<^verbatim>\<open>try ... except Exception\<close>, which gives
  the empty dictionary too. The three \<^verbatim>\<open>.get\<close> calls on the chosen section come
  after the \<^verbatim>\<open>try\<close>: on a section that is no dictionary they raise.
\<close>

definition read_config_file ::
  "(string \<Rightarrow> py_exception + py_value) \<Rightarrow> filesystem \<Rightarrow> path
     \<Rightarrow> py_exception + (string \<times> string option) list" where
  "read_config_file toml_load fs path =
     (case path_exists fs path of
        Inl e \<Rightarrow> Inl (OSError e)
      | Inr there \<Rightarrow>
          if \<not> there then Inr []
          else
            (case (case open_read fs path of
                     Inl e \<Rightarrow> Inl (OSError e)
                   | Inr fh \<Rightarrow> toml_load fh) of
               Inl exc \<Rightarrow> Inr []
             | Inr raw \<Rightarrow>
                 (case (if isinstance_dict raw then value_get raw ''openrsvp'' raw
                        else Inr (VDict [])) of
                    Inl exc \<Rightarrow> Inl exc
                  | Inr config_section \<Rightarrow>
                      (case value_get config_section ''base_url'' VNone of
                         Inl exc \<Rightarrow> Inl exc
                       | Inr b \<Rightarrow>
                           (case value_get config_section ''token'' VNone of
                              Inl exc \<Rightarrow> Inl exc
                            | Inr t \<Rightarrow>
                                (case value_get config_section ''default_channel'' VNone of
                                   Inl exc \<Rightarrow> Inl exc
                                 | Inr c \<Rightarrow>
                                     Inr [(''base_url'', str_unless_none b),
                                          (''token'', str_unless_none t),
                                          (''default_channel'', str_unless_none c)]))))))"

record Settings =
  base_url :: string
  token :: "string option"
  default_channel :: "string option"
  output_json :: bool
  quiet :: bool

text \<open>
  \<^verbatim>\<open>load_settings\<close>. The environment is the parameter \<open>env\<close>. Each field is the
  \<^verbatim>\<open>or\<close> chain of the source, which yields its first true operand, or its last
  operand when none is true; the chain of \<open>base_url\<close> ends in a string literal.
\<close>

definition load_settings ::
  "(string \<Rightarrow> py_exception + py_value) \<Rightarrow> path \<Rightarrow> filesystem \<Rightarrow> environ
     \<Rightarrow> string option \<Rightarrow> string option \<Rightarrow> string option \<Rightarrow> bool \<Rightarrow> bool
     \<Rightarrow> py_exception + Settings" where
  "load_settings toml_load home fs env cli_base_url cli_token cli_default_channel oj q =
     (case read_config_file toml_load fs (CONFIG_PATH home) of
        Inl exc \<Rightarrow> Inl exc
      | Inr file_config \<Rightarrow>
          Inr \<lparr>base_url =
                 rstrip ''/''
                   (py_or_str cli_base_url
                      (py_or_str (env ''OPENRSVP_BASE_URL'')
                         (py_or_str (opt_get file_config ''base_url'')
                            ''http://localhost:8000''))),
               token = py_or cli_token
                         (py_or (env ''OPENRSVP_TOKEN'') (opt_get file_config ''token'')),
               default_channel = py_or cli_default_channel
                         (py_or (env ''OPENRSVP_DEFAULT_CHANNEL'')
                            (opt_get file_config ''default_channel'')),
               output_json = oj,
               quiet = q\<rparr>)"

section \<open>openrsvp_cli/client.py\<close>

text \<open>
  The request that leaves the program: the method, the client's base URL, the path,
  the headers this program set, and the keyword arguments passed on to
  \<^verbatim>\<open>httpx\<close>. The network is the parameter \<open>send\<close>: it answers a request with a
  response, or fails with \<^verbatim>\<open>httpx.RequestError\<close> and its text. \<open>json\<close> is the
  outcome of \<^verbatim>\<open>response.json()\<close>, \<open>None\<close> when it raises \<^verbatim>\<open>ValueError\<close>.
\<close>

record http_request =
  req_method :: string
  req_base_url :: string
  req_path :: string
  req_headers :: "(string \<times> string) list"
  req_kwargs :: "(string \<times> py_value) list"
  req_timeout :: nat

record http_response =
  status_code :: int
  body_text :: string
  json :: "py_value option"

datatype transport = RequestFailed string | Responded http_response

text \<open>\<^verbatim>\<open>response.is_error\<close> and \<^verbatim>\<open>response.is_success\<close> of httpx.\<close>

definition is_error :: "http_response \<Rightarrow> bool" where
  "is_error r = (400 \<le> status_code r \<and> status_code r \<le> 599)"

definition is_success :: "http_response \<Rightarrow> bool" where
  "is_success r = (200 \<le> status_code r \<and> status_code r \<le> 299)"

text \<open>
  \<^verbatim>\<open>httpx.AsyncClient(base_url, headers, timeout)\<close>; both timeouts in seconds. The
  constructor parses the base URL and raises \<^verbatim>\<open>InvalidURL\<close> when \<^verbatim>\<open>httpx.URL\<close> does
  not accept it; which strings it accepts is the parameter \<open>url_ok\<close>. Then it encodes
  every header name and value as ASCII, and raises \<^verbatim>\<open>UnicodeEncodeError\<close> on a
  character that is not.
\<close>

record AsyncClient =
  client_base_url :: string
  client_headers :: "(string \<times> string) list"
  client_timeout :: nat
  client_connect_timeout :: nat

definition is_ascii :: "string \<Rightarrow> bool" where
  "is_ascii s = list_all (\<lambda>c. (of_char c :: nat) < 128) s"

definition AsyncClient_init ::
  "(string \<Rightarrow> bool) \<Rightarrow> string \<Rightarrow> (string \<times> string) list \<Rightarrow> nat \<Rightarrow> nat
     \<Rightarrow> py_exception + AsyncClient" where
  "AsyncClient_init url_ok b headers t ct =
     (if \<not> url_ok b then Inl (InvalidURL b)
      else if \<not> list_all (\<lambda>(k, v). is_ascii k \<and> is_ascii v) headers then Inl UnicodeEncodeError
      else Inr \<lparr>client_base_url = b, client_headers = headers,
                client_timeout = t, client_connect_timeout = ct\<rparr>)"

record APIClient =
  settings :: Settings
  client :: "AsyncClient option"

definition APIClient_init :: "Settings \<Rightarrow> APIClient" where
  "APIClient_init s = \<lparr>settings = s, client = None\<rparr>"

text \<open>\<^verbatim>\<open>APIClient.__aenter__\<close>: the client with its httpx client in place, or what the
  constructor raised.\<close>

definition aenter :: "(string \<Rightarrow> bool) \<Rightarrow> APIClient \<Rightarrow> py_exception + APIClient" where
  "aenter url_ok self =
     (case AsyncClient_init url_ok (base_url (settings self))
             (case token (settings self) of
                None \<Rightarrow> []
              | Some t \<Rightarrow> if t \<noteq> [] then [(''Authorization'', ''Bearer '' @ t)] else [])
             10 10 of
        Inl exc \<Rightarrow> Inl exc
      | Inr c \<Rightarrow> Inr (self\<lparr>client := Some c\<rparr>))"

text \<open>\<^verbatim>\<open>self._client.request(method, path, **kwargs)\<close>: the client's own base URL,
  headers and timeout go into every request it builds.\<close>

definition client_request :: "AsyncClient \<Rightarrow> string \<Rightarrow> string \<Rightarrow> (string \<times> py_value) list \<Rightarrow> http_request" where
  "client_request c method p kwargs =
     \<lparr>req_method = method, req_base_url = client_base_url c, req_path = p,
      req_headers = client_headers c, req_kwargs = kwargs,
      req_timeout = client_timeout c\<rparr>"

definition AUTH_MESSAGE :: string where
  "AUTH_MESSAGE = ''Authentication failed. Provide a valid token via --token, OPENRSVP_TOKEN, or ~/.config/openrsvp/config.toml.''"

text \<open>\<^verbatim>\<open>APIClient._request\<close>.\<close>

definition request ::
  "(http_request \<Rightarrow> transport) \<Rightarrow> APIClient \<Rightarrow> string \<Rightarrow> string \<Rightarrow> (string \<times> py_value) list
     \<Rightarrow> py_exception + py_value" where
  "request send self method p kwargs =
     (case client self of
        None \<Rightarrow> Inl (RuntimeError ''APIClient must be used within an async context manager'')
      | Some c \<Rightarrow>
          (case send (client_request c method p kwargs) of
             RequestFailed exc \<Rightarrow>
               Inl (NetworkError (''Network error contacting '' @ base_url (settings self)
                                    @ '': '' @ exc))
           | Responded response \<Rightarrow>
               if status_code response \<in> {401, 403} then
                 Inl (AuthError (status_code response) AUTH_MESSAGE)
               else
                 (let payload = (case json response of
                                   Some v \<Rightarrow> v
                                 | None \<Rightarrow> VStr (body_text response))
                  in if is_error response then
                       Inl (APIError (status_code response)
                              (py_str (if isinstance_str payload then payload
                                       else if truthy payload then payload
                                       else VStr (body_text response)))
                              payload)
                     else Inr payload)))"

text \<open>The four verbs. \<^verbatim>\<open>get\<close> passes \<^verbatim>\<open>params or None\<close>.\<close>

definition get :: "(http_request \<Rightarrow> transport) \<Rightarrow> APIClient \<Rightarrow> string \<Rightarrow> (string \<times> py_value) list
     \<Rightarrow> py_exception + py_value" where
  "get send self p params =
     request send self ''GET'' p
       [(''params'', if truthy (VDict params) then VDict params else VNone)]"

definition post :: "(http_request \<Rightarrow> transport) \<Rightarrow> APIClient \<Rightarrow> string \<Rightarrow> py_value
     \<Rightarrow> py_exception + py_value" where
  "post send self p js = request send self ''POST'' p [(''json'', js)]"

definition delete :: "(http_request \<Rightarrow> transport) \<Rightarrow> APIClient \<Rightarrow> string
     \<Rightarrow> py_exception + py_value" where
  "delete send self p = request send self ''DELETE'' p []"

definition patch :: "(http_request \<Rightarrow> transport) \<Rightarrow> APIClient \<Rightarrow> string \<Rightarrow> py_value
     \<Rightarrow> py_exception + py_value" where
  "patch send self p js = request send self ''PATCH'' p [(''json'', js)]"

section \<open>invite/cli.py\<close>

definition invite_CONFIG_PATH :: "path \<Rightarrow> path" where
  "invite_CONFIG_PATH home = home @ [''.config'', ''invite'', ''config.toml'']"

text \<open>\<^verbatim>\<open>_load_config_base_url\<close>: the existence test is not guarded; everything after it
  runs under \<^verbatim>\<open>try ... except Exception: return None\<close>.\<close>

definition load_config_base_url ::
  "(string \<Rightarrow> py_exception + py_value) \<Rightarrow> path \<Rightarrow> filesystem
     \<Rightarrow> py_exception + string option" where
  "load_config_base_url toml_load home fs =
     (case path_exists fs (invite_CONFIG_PATH home) of
        Inl e \<Rightarrow> Inl (OSError e)
      | Inr there \<Rightarrow>
          if \<not> there then Inr None
          else
            (case (case open_read fs (invite_CONFIG_PATH home) of
                     Inl e \<Rightarrow> Inl (OSError e)
                   | Inr f \<Rightarrow>
                       (case toml_load f of
                          Inl exc \<Rightarrow> Inl exc
                        | Inr data \<Rightarrow>
                            (case value_get data ''base_url'' VNone of
                               Inl exc \<Rightarrow> Inl exc
                             | Inr b \<Rightarrow>
                                 Inr (if truthy b then Some (py_str b) else None)))) of
               Inl exc \<Rightarrow> Inr None
             | Inr r \<Rightarrow> Inr r))"

definition normalize_base_url :: "string \<Rightarrow> string" where
  "normalize_base_url b = rstrip ''/'' b"

text \<open>What the program prints: \<^verbatim>\<open>typer.secho(message, fg=colour)\<close>, and
  \<^verbatim>\<open>typer.echo(json.dumps(data, indent=2))\<close> with the value it renders.\<close>

datatype echo = Secho string string | Echo_json py_value

definition path_str :: "path \<Rightarrow> string" where
  "path_str p = (if p = [] then ''/'' else concat (map (\<lambda>c. ''/'' @ c) p))"

text \<open>The line \<^verbatim>\<open>configure\<close> writes: \<^verbatim>\<open>base_url = "<normalized>"\<close> and a newline.\<close>

definition config_line :: "string \<Rightarrow> string" where
  "config_line normalized = ''base_url = '' @ [CHR 0x22] @ normalized @ [CHR 0x22, CHR 0x0A]"

text \<open>\<^verbatim>\<open>configure\<close>: the file system after the call, what was printed, and the
  exception that left the function, if one did. Nothing is caught.\<close>

definition configure ::
  "path \<Rightarrow> filesystem \<Rightarrow> string \<Rightarrow> filesystem \<times> echo list \<times> py_exception option" where
  "configure home fs b =
     (case Path_mkdir fs (parent (invite_CONFIG_PATH home)) True True of
        Inl e \<Rightarrow> (fs, [], Some (OSError e))
      | Inr fs1 \<Rightarrow>
          (case write_text fs1 (invite_CONFIG_PATH home)
                  (config_line (normalize_base_url b)) of
             Inl e \<Rightarrow> (fs1, [], Some (OSError e))
           | Inr fs2 \<Rightarrow>
               (fs2,
                [Secho (''Saved config to '' @ path_str (invite_CONFIG_PATH home)) ''green''],
                None)))"

text \<open>\<^verbatim>\<open>_request\<close> of invite/cli.py, with \<^verbatim>\<open>ctx.obj["base_url"]\<close> as \<open>b\<close>: what was
  printed, and the value returned or the exception raised. A transport failure is not
  caught.\<close>

definition invite_request ::
  "(http_request \<Rightarrow> transport) \<Rightarrow> string \<Rightarrow> string \<Rightarrow> string \<Rightarrow> (string \<times> string) list option
     \<Rightarrow> py_value \<Rightarrow> bool \<Rightarrow> echo list \<times> (py_exception + py_value)" where
  "invite_request send b method p headers json_payload echo_flag =
     (case send \<lparr>req_method = method, req_base_url = b, req_path = p,
                 req_headers = (case headers of None \<Rightarrow> [] | Some h \<Rightarrow> h),
                 req_kwargs = [(''json'', json_payload)],
                 req_timeout = 15\<rparr> of
        RequestFailed exc \<Rightarrow> ([], Inl (RequestError exc))
      | Responded response \<Rightarrow>
          if status_code response = 204 then
            ([Secho ''Success (204 No Content)'' ''green''], Inr VNone)
          else
            (let data = (case json response of
                           Some v \<Rightarrow> v
                         | None \<Rightarrow> VDict [(''detail'', VStr (body_text response))])
             in if is_success response then
                  ((if echo_flag then [Echo_json data] else []), Inr data)
                else
                  ([Secho (''Request failed ('' @ int_str (status_code response) @ '')'') ''red'',
                    Echo_json (if isinstance_dict data then data
                               else VDict [(''detail'', data)])],
                   Inl (Exit 1))))"

section \<open>openrsvp_cli/config_cli.py\<close>

text \<open>A line of \<^verbatim>\<open>console.print\<close>: literal text, and the places where the f-string
  renders an exception or a path.\<close>

datatype fragment = Lit string | Exc_str py_exception | Path_str path

text \<open>
  \<^verbatim>\<open>set_base_url\<close>. It imports \<^verbatim>\<open>save_base_url\<close> from openrsvp_cli/config.py, which
  does not define it; the function is the parameter \<open>save\<close> here: given the URL and
  the file system, it returns the path written or raises. Result: the file system,
  the lines printed, and the exception that left the command, if one did.
\<close>

definition set_base_url ::
  "(string \<Rightarrow> filesystem \<Rightarrow> filesystem \<times> (py_exception + path)) \<Rightarrow> filesystem
     \<Rightarrow> string option \<Rightarrow> string option
     \<Rightarrow> filesystem \<times> fragment list list \<times> py_exception option" where
  "set_base_url save fs base_url_arg base_url_option =
     (case save (py_or_str base_url_arg
                   (py_or_str base_url_option ''http://localhost:8000'')) fs of
        (fs', Inl exc) \<Rightarrow>
          (fs', [[Lit ''[red]Failed to update config: '', Exc_str exc, Lit ''[/red]'']],
           Some (Exit 1))
      | (fs', Inr p) \<Rightarrow>
          (fs', [[Lit ''[green]Saved base_url to '', Path_str p, Lit ''[/green]'']], None))"

text \<open>
  Modelled from the spec: \<^verbatim>\<open>save_base_url\<close>, the write operation of the config store,
  which openrsvp_cli/config.py does not contain, and \<open>ConfigWriteError\<close>, which no
  source file defines. The spec: it creates parent directories as needed, then
  overwrites the file with a single \<open>base_url\<close> entry, normalized (trailing separator
  stripped); it returns the absolute path written, or fails with a
  \<open>ConfigWriteError\<close> wrapping the underlying filesystem error.
\<close>

definition save_base_url ::
  "path \<Rightarrow> string \<Rightarrow> filesystem \<Rightarrow> filesystem \<times> (py_exception + path)" where
  "save_base_url home b fs =
     (case Path_mkdir fs (parent (CONFIG_PATH home)) True True of
        Inl e \<Rightarrow> (fs, Inl (ConfigWriteError e))
      | Inr fs1 \<Rightarrow>
          (case write_text fs1 (CONFIG_PATH home) (config_line (rstrip ''/'' b)) of
             Inl e \<Rightarrow> (fs1, Inl (ConfigWriteError e))
           | Inr fs2 \<Rightarrow> (fs2, Inr (CONFIG_PATH home))))"

section \<open>tomllib on documents of one line\<close>

text \<open>
  What \<^verbatim>\<open>tomllib.load\<close> does with a document that is empty or is one statement
  \<^verbatim>\<open>key = "basic string"\<close> with a bare key, followed by nothing or by one newline:
  the steps of \<^verbatim>\<open>tomllib.loads\<close> on such a text. \<open>toml_fragment\<close> gives the outcome,
  a document or a \<^verbatim>\<open>TOMLDecodeError\<close>, and \<open>None\<close> for every text that needs more of
  TOML than this: another kind of value, a dotted or quoted key, a comment, a
  \<^verbatim>\<open>\u\<close> escape, a second statement.
\<close>

definition BARE_KEY_CHARS :: string where
  "BARE_KEY_CHARS = ''abcdefghijklmnopqrstuvwxyzABCDEFGHIJKLMNOPQRSTUVWXYZ0123456789-_''"

definition TOML_WS :: string where
  "TOML_WS = [CHR 0x20, CHR 0x09]"

text \<open>\<^verbatim>\<open>ILLEGAL_BASIC_STR_CHARS\<close>: the control characters other than the tab.\<close>

definition illegal_basic_str_char :: "char \<Rightarrow> bool" where
  "illegal_basic_str_char c =
     (((of_char c :: nat) < 32 \<and> c \<noteq> CHR 0x09) \<or> (of_char c :: nat) = 127)"

text \<open>\<^verbatim>\<open>s.replace("\r\n", "\n")\<close>.\<close>

fun replace_crlf :: "string \<Rightarrow> string" where
  "replace_crlf (c # d # cs) =
     (if c = CHR 0x0D \<and> d = CHR 0x0A then CHR 0x0A # replace_crlf cs
      else c # replace_crlf (d # cs))"
| "replace_crlf cs = cs"

text \<open>\<^verbatim>\<open>BASIC_STR_ESCAPE_REPLACEMENTS\<close>, by the character after the backslash.\<close>

definition basic_str_escape :: "char \<Rightarrow> char option" where
  "basic_str_escape e =
     (if e = CHR ''b'' then Some (CHR 0x08)
      else if e = CHR ''t'' then Some (CHR 0x09)
      else if e = CHR ''n'' then Some (CHR 0x0A)
      else if e = CHR ''f'' then Some (CHR 0x0C)
      else if e = CHR ''r'' then Some (CHR 0x0D)
      else if e = CHR 0x22 then Some (CHR 0x22)
      else if e = CHR 0x5C then Some (CHR 0x5C)
      else None)"

text \<open>
  \<^verbatim>\<open>parse_basic_str\<close> after the opening quote: the string read so far and the text
  left. The result is the string and the text after the closing quote.
\<close>

fun parse_basic_str :: "string \<Rightarrow> string \<Rightarrow> (py_exception + string \<times> string) option" where
  "parse_basic_str acc [] = Some (Inl (TOMLDecodeError ''Unterminated string''))"
| "parse_basic_str acc [c] =
     (if c = CHR 0x22 then Some (Inr (acc, []))
      else if c = CHR 0x5C then Some (Inl (TOMLDecodeError ''Unescaped backslash in a string''))
      else if illegal_basic_str_char c then Some (Inl (TOMLDecodeError ''Illegal character''))
      else parse_basic_str (acc @ [c]) [])"
| "parse_basic_str acc (c # e # cs) =
     (if c = CHR 0x22 then Some (Inr (acc, e # cs))
      else if c = CHR 0x5C then
        (if e = CHR ''u'' \<or> e = CHR ''U'' then None
         else (case basic_str_escape e of
                 None \<Rightarrow> Some (Inl (TOMLDecodeError ''Unescaped backslash in a string''))
               | Some r \<Rightarrow> parse_basic_str (acc @ [r]) cs))
      else if illegal_basic_str_char c then Some (Inl (TOMLDecodeError ''Illegal character''))
      else parse_basic_str (acc @ [c]) (e # cs))"

text \<open>What follows the value: blanks, then the end of the text or one newline that
  ends it.\<close>

definition after_statement ::
  "(string \<times> py_value) list \<Rightarrow> string \<Rightarrow> (py_exception + py_value) option" where
  "after_statement doc rest =
     (case dropWhile (\<lambda>c. c \<in> set TOML_WS) rest of
        [] \<Rightarrow> Some (Inr (VDict doc))
      | d # following \<Rightarrow>
          if d = CHR ''#'' then None
          else if d \<noteq> CHR 0x0A then
            Some (Inl (TOMLDecodeError
                         ''Expected newline or end of document after a statement''))
          else if following = [] then Some (Inr (VDict doc))
          else None)"

text \<open>The value after the equals sign, for the key \<open>k\<close>.\<close>

definition key_value ::
  "string \<Rightarrow> string \<Rightarrow> (py_exception + py_value) option" where
  "key_value k rest =
     (case dropWhile (\<lambda>c. c \<in> set TOML_WS) rest of
        [] \<Rightarrow> Some (Inl (TOMLDecodeError ''Invalid value''))
      | q # body \<Rightarrow>
          if q \<noteq> CHR 0x22 then None
          else if take 2 body = [CHR 0x22, CHR 0x22] then None
          else
            (case parse_basic_str [] body of
               None \<Rightarrow> None
             | Some (Inl exc) \<Rightarrow> Some (Inl exc)
             | Some (Inr (v, rest')) \<Rightarrow> after_statement [(k, VStr v)] rest'))"

definition toml_fragment :: "string \<Rightarrow> (py_exception + py_value) option" where
  "toml_fragment s =
     (if replace_crlf s = [] then Some (Inr (VDict []))
      else if takeWhile (\<lambda>c. c \<in> set BARE_KEY_CHARS) (replace_crlf s) = [] then None
      else
        (case dropWhile (\<lambda>c. c \<in> set TOML_WS)
                (dropWhile (\<lambda>c. c \<in> set BARE_KEY_CHARS) (replace_crlf s)) of
           [] \<Rightarrow> Some (Inl (TOMLDecodeError ''Expected = after a key in a key/value pair''))
         | c # rest \<Rightarrow>
             if c = CHR ''.'' then None
             else if c \<noteq> CHR ''='' then
               Some (Inl (TOMLDecodeError ''Expected = after a key in a key/value pair''))
             else key_value (takeWhile (\<lambda>c. c \<in> set BARE_KEY_CHARS) (replace_crlf s)) rest))"

text \<open>A parser reads TOML when it agrees with \<open>toml_fragment\<close> wherever that speaks: the
  same document, or some exception where it has one.\<close>

definition reads_toml :: "(string \<Rightarrow> py_exception + py_value) \<Rightarrow> bool" where
  "reads_toml toml_load =
     (\<forall>t. case toml_fragment t of
             None \<Rightarrow> True
           | Some (Inr v) \<Rightarrow> toml_load t = Inr v
           | Some (Inl exc) \<Rightarrow> isl (toml_load t))"

text \<open>A string that a TOML basic string takes as it is: no double quote, no backslash,
  no control character other than the tab.\<close>

definition plain_str :: "string \<Rightarrow> bool" where
  "plain_str s =
     list_all (\<lambda>c. c \<noteq> CHR 0x22 \<and> c \<noteq> CHR 0x5C \<and> \<not> illegal_basic_str_char c) s"

section \<open>The claims as the specification words them\<close>

text \<open>
  These definitions follow the specification's sentences, not the source. They are
  what the functions above are compared with.
\<close>


text \<open>The specification's \<open>base_url\<close>: the highest-precedence source that is not absent,
  else the default, trailing separators stripped.\<close>

definition claimed_base_url :: "string option \<Rightarrow> string option \<Rightarrow> string option \<Rightarrow> string" where
  "claimed_base_url explicit environment file =
     rstrip ''/''
       (case explicit of
          Some v \<Rightarrow> v
        | None \<Rightarrow>
            (case environment of
               Some v \<Rightarrow> v
             | None \<Rightarrow> (case file of Some v \<Rightarrow> v | None \<Rightarrow> ''http://localhost:8000'')))"

text \<open>The specification's header rule: a token that is present is sent, whatever it is.\<close>

definition claimed_headers :: "Settings \<Rightarrow> (string \<times> string) list" where
  "claimed_headers s =
     (case token s of
        Some t \<Rightarrow> [(''Authorization'', ''Bearer '' @ t)]
      | None \<Rightarrow> [])"

section \<open>Concrete inputs\<close>

definition example_home :: path where
  "example_home = [''home'', ''user'']"

definition no_files :: filesystem where
  "no_files = \<lparr>nodes = (\<lambda>p. None), fault = (\<lambda>op. None)\<rparr>"

text \<open>A file at \<open>p\<close> with content \<open>t\<close> under its directories, and nothing else.\<close>

definition one_file :: "path \<Rightarrow> string \<Rightarrow> filesystem" where
  "one_file p t =
     \<lparr>nodes = (\<lambda>q. if q = p then Some (File t)
                    else if length q < length p \<and> take (length q) p = q then Some Dir
                    else None),
      fault = (\<lambda>op. None)\<rparr>"

text \<open>A parser that rejects its input, and one that reads it as a given document.\<close>

definition corrupt_toml :: "string \<Rightarrow> py_exception + py_value" where
  "corrupt_toml t = Inl (TOMLDecodeError ''Invalid statement (at line 1, column 1)'')"

definition parsed_as :: "(string \<times> py_value) list \<Rightarrow> string \<Rightarrow> py_exception + py_value" where
  "parsed_as doc t = Inr (VDict doc)"

text \<open>A document with top-level \<open>token\<close> and \<open>base_url\<close> and an \<open>openrsvp\<close> section
  that holds only \<open>base_url\<close>.\<close>

definition example_doc :: "(string \<times> py_value) list" where
  "example_doc = [(''token'', VStr ''t''), (''base_url'', VStr ''https://top''),
                  (''openrsvp'', VDict [(''base_url'', VStr ''https://x'')])]"

definition only_env :: "string \<Rightarrow> string \<Rightarrow> environ" where
  "only_env name v = (\<lambda>k. if k = name then Some v else None)"

text \<open>An environment in which the three variables are set to the empty string.\<close>

definition empty_env :: environ where
  "empty_env = (\<lambda>k. if k \<in> {''OPENRSVP_BASE_URL'', ''OPENRSVP_TOKEN'', ''OPENRSVP_DEFAULT_CHANNEL''}
                     then Some '''' else None)"

text \<open>Settings for the default server, with a given token.\<close>

definition local_settings :: "string option \<Rightarrow> Settings" where
  "local_settings t = \<lparr>base_url = ''http://localhost:8000'', token = t, default_channel = None,
                       output_json = False, quiet = False\<rparr>"

text \<open>The httpx client for settings without a token.\<close>

definition plain_client :: AsyncClient where
  "plain_client = \<lparr>client_base_url = ''http://localhost:8000'', client_headers = [],
                    client_timeout = 10, client_connect_timeout = 10\<rparr>"

text \<open>A server that answers every request with the same response.\<close>

definition answers :: "http_response \<Rightarrow> http_request \<Rightarrow> transport" where
  "answers r req = Responded r"

definition unauthorized_html :: http_response where
  "unauthorized_html =
     \<lparr>status_code = 401, body_text = ''<html>Unauthorized</html>'', json = None\<rparr>"

text \<open>Status 404 with the body \<^verbatim>\<open>{"detail": "not found"}\<close>.\<close>

definition not_found_json :: http_response where
  "not_found_json =
     \<lparr>status_code = 404,
      body_text = ''{'' @ [CHR 0x22] @ ''detail'' @ [CHR 0x22] @ '': '' @ [CHR 0x22]
                    @ ''not found'' @ [CHR 0x22] @ ''}'',
      json = Some (VDict [(''detail'', VStr ''not found'')])\<rparr>"

text \<open>Status 204 with an empty body, on which \<^verbatim>\<open>response.json()\<close> raises.\<close>

definition no_content :: http_response where
  "no_content = \<lparr>status_code = 204, body_text = [], json = None\<rparr>"

definition found_redirect :: http_response where
  "found_redirect = \<lparr>status_code = 302, body_text = [], json = None\<rparr>"

text \<open>A config file written earlier, a parser that is \<open>toml_fragment\<close> where that
  speaks and rejects every other text, and a file system that refuses every
  operation.\<close>

definition old_line :: string where
  "old_line = config_line ''http://old.example''"

definition fragment_load :: "string \<Rightarrow> py_exception + py_value" where
  "fragment_load t =
     (case toml_fragment t of
        Some r \<Rightarrow> r
      | None \<Rightarrow> Inl (TOMLDecodeError ''not a document of one line''))"

definition read_only :: filesystem where
  "read_only = \<lparr>nodes = (\<lambda>p. None), fault = (\<lambda>op. Some PermissionError)\<rparr>"

text \<open>The directory \<open>d\<close> and the directories above it, with \<open>d\<close> closed to search:
  no path below \<open>d\<close> can be resolved.\<close>

definition locked_dir :: "path \<Rightarrow> filesystem" where
  "locked_dir d =
     \<lparr>nodes = (\<lambda>q. if length q \<le> length d \<and> take (length q) d = q then Some Dir else None),
      fault = (\<lambda>op. case op of
                       OpStat p \<Rightarrow>
                         if length d < length p \<and> take (length d) p = d
                         then Some PermissionError else None
                     | _ \<Rightarrow> None)\<rparr>"

text \<open>A base URL with a backslash in it, and a slash at its end.\<close>

definition backslash_url :: string where
  "backslash_url = ''http://a'' @ [CHR 0x5C] @ ''b/''"

text \<open>A version of httpx that accepts every base URL, and the API client that
  \<open>aenter\<close> opens on settings without a token.\<close>

definition any_url :: "string \<Rightarrow> bool" where
  "any_url u = True"

definition plain_api :: APIClient where
  "plain_api = \<lparr>settings = local_settings None, client = Some plain_client\<rparr>"

section \<open>Auxiliary facts\<close>

lemma rstrip_no_trailing: "rstrip chars s = [] \<or> last (rstrip chars s) \<notin> set chars"
proof (cases "dropWhile (\<lambda>c. c \<in> set chars) (rev s)")
  case Nil
  then show ?thesis by (simp add: rstrip_def)
next
  case (Cons x xs)
  then have "\<not> (x \<in> set chars)"
    using hd_dropWhile [of "\<lambda>c. c \<in> set chars" "rev s"] by simp
  with Cons show ?thesis by (simp add: rstrip_def)
qed

lemma rstrip_example: "rstrip ''/'' ''https://example.com/'' = ''https://example.com''"
  by (simp add: rstrip_def)

lemma rstrip_default: "rstrip ''/'' ''http://localhost:8000'' = ''http://localhost:8000''"
  by (simp add: rstrip_def)


text \<open>A file that opens is a file that is found.\<close>

lemma open_read_exists: "open_read fs p = Inr t \<Longrightarrow> path_exists fs p = Inr True"
  by (auto simp: open_read_def path_exists_def os_stat_def split: option.splits node.splits)

lemma read_example_doc:
  "read_config_file (parsed_as example_doc) (one_file (CONFIG_PATH example_home) ''...'')
        (CONFIG_PATH example_home)
      = Inr [(''base_url'', Some ''https://x''), (''token'', None), (''default_channel'', None)]"
  by (simp add: read_config_file_def one_file_def CONFIG_PATH_def parsed_as_def example_doc_def
        path_exists_def os_stat_def node_at_def open_read_def isinstance_dict_def value_get_def
        str_unless_none_def py_str_def)

lemma read_nothing:
  "read_config_file corrupt_toml no_files (CONFIG_PATH example_home) = Inr []"
  by (simp add: read_config_file_def no_files_def CONFIG_PATH_def path_exists_def os_stat_def
        ignore_error_def node_at_def)

text \<open>
  When the existence test returns, a config file that is not there, does not open or
  does not parse reads as the empty dictionary.
\<close>

lemma reads_as_empty_when_stat_returns:
  assumes "path_exists fs p = Inr False
           \<or> (path_exists fs p = Inr True
                \<and> ((\<exists>e. open_read fs p = Inl e)
                     \<or> (\<exists>t exc. open_read fs p = Inr t \<and> toml_load t = Inl exc)))"
  shows "read_config_file toml_load fs p = Inr []"
  using assms by (auto simp: read_config_file_def)

text \<open>
  The two ways an exception leaves \<open>read_config_file\<close>: the existence test raises,
  or the file parses to a document whose \<open>openrsvp\<close> entry is not a table, and
  \<^verbatim>\<open>.get\<close> is called on it.
\<close>

lemma read_config_file_raises:
  "read_config_file toml_load fs p = Inl exc \<longleftrightarrow>
     ((\<exists>e. path_exists fs p = Inl e \<and> exc = OSError e)
      \<or> (exc = AttributeError \<and>
          (\<exists>t doc v. open_read fs p = Inr t \<and> toml_load t = Inr (VDict doc)
              \<and> map_of doc ''openrsvp'' = Some v \<and> \<not> isinstance_dict v)))"
proof (cases "path_exists fs p")
  case (Inl e)
  then have "\<And>t. open_read fs p \<noteq> Inr t"
    using open_read_exists [of fs p] by auto
  with Inl show ?thesis by (auto simp: read_config_file_def)
next
  case there: (Inr b)
  show ?thesis
  proof (cases "open_read fs p")
    case (Inl e)
    with there show ?thesis by (simp add: read_config_file_def)
  next
    case (Inr t)
    from open_read_exists [OF Inr] there have b: "b" by simp
    show ?thesis
    proof (cases "toml_load t")
      case (Inl e)
      with Inr there b show ?thesis by (simp add: read_config_file_def)
    next
      case raw: (Inr raw)
      show ?thesis
      proof (cases raw)
        case (VDict doc)
        show ?thesis
        proof (cases "map_of doc ''openrsvp''")
          case None
          with Inr there b raw VDict show ?thesis
            by (simp add: read_config_file_def isinstance_dict_def value_get_def)
        next
          case (Some v)
          with Inr there b raw VDict show ?thesis
            by (cases v)
               (auto simp: read_config_file_def isinstance_dict_def value_get_def)
        qed
      qed (use Inr there b raw in
            \<open>simp_all add: read_config_file_def isinstance_dict_def value_get_def\<close>)
    qed
  qed
qed

lemma opened_plain: "aenter any_url (APIClient_init (local_settings None)) = Inr plain_api"
  by (simp add: APIClient_init_def aenter_def AsyncClient_init_def any_url_def
        local_settings_def plain_client_def plain_api_def)

lemma client_plain: "client plain_api = Some plain_client"
  by (simp add: plain_api_def)

lemma answers_plain:
  "answers r (client_request plain_client verb p kwargs) = Responded r"
  by (simp add: answers_def)

text \<open>A redirect is no error for \<^verbatim>\<open>is_error\<close>: its payload is returned.\<close>

lemma redirect_is_returned:
  "get (answers found_redirect) plain_api ''/api/v1/events'' [] = Inr (VStr [])"
  by (simp add: get_def request_def plain_api_def answers_def found_redirect_def is_error_def)

text \<open>A token with a character outside ASCII: the client does not open.\<close>

lemma non_ascii_token_raises:
  "aenter any_url (APIClient_init (local_settings (Some (''t'' @ [CHR 0xE9]))))
     = Inl UnicodeEncodeError"
  by (simp add: APIClient_init_def aenter_def AsyncClient_init_def any_url_def
        local_settings_def is_ascii_def)

lemma os_mkdir_is_dir: "os_mkdir fs p = Inr fs' \<Longrightarrow> is_dir fs' p"
  by (auto simp: os_mkdir_def is_dir_def node_at_def
           split: option.splits if_splits node.splits)

lemma write_text_result:
  assumes "write_text fs p data = Inr fs'"
  shows "node_at fs' p = Some (File data) \<and> is_dir fs' (parent p) \<and> fault fs' = fault fs
           \<and> fault fs (OpStat p) = None"
  using assms
  by (auto simp: write_text_def node_at_def is_dir_def parent_def
           split: option.splits node.splits if_splits)

subsection \<open>The line that \<open>configure\<close> writes, read as TOML\<close>

lemma replace_crlf_id: "CHR 0x0D \<notin> set s \<Longrightarrow> replace_crlf s = s"
proof (induction s rule: replace_crlf.induct)
  case (1 c d cs)
  from "1.prems" have c: "c \<noteq> CHR 0x0D" and rest: "CHR 0x0D \<notin> set (d # cs)"
    by auto
  from c "1.IH"(2) rest show ?case by simp
qed simp_all

lemma plain_no_cr: "plain_str s \<Longrightarrow> CHR 0x0D \<notin> set s"
proof
  assume p: "plain_str s" and m: "CHR 0x0D \<in> set s"
  from p m have "\<not> illegal_basic_str_char (CHR 0x0D)"
    by (auto simp: plain_str_def list_all_iff)
  then show False by (simp add: illegal_basic_str_char_def)
qed

lemma parse_basic_str_plain:
  "plain_str u \<Longrightarrow> parse_basic_str acc (u @ CHR 0x22 # rest) = Some (Inr (acc @ u, rest))"
proof (induction u arbitrary: acc)
  case Nil
  then show ?case by (cases rest) simp_all
next
  case (Cons c u)
  then have c: "c \<noteq> CHR 0x22" "c \<noteq> CHR 0x5C" "\<not> illegal_basic_str_char c"
    and u: "plain_str u"
    by (simp_all add: plain_str_def)
  obtain e cs where ecs: "u @ CHR 0x22 # rest = e # cs"
    by (cases "u @ CHR 0x22 # rest") simp_all
  have "parse_basic_str acc (c # e # cs) = parse_basic_str (acc @ [c]) (e # cs)"
    using c by simp
  with ecs have "parse_basic_str acc ((c # u) @ CHR 0x22 # rest)
                   = parse_basic_str (acc @ [c]) (u @ CHR 0x22 # rest)"
    by simp
  also have "\<dots> = Some (Inr ((acc @ [c]) @ u, rest))"
    using Cons.IH [OF u] .
  finally show ?case by simp
qed

lemma key_of_config_line:
  "takeWhile (\<lambda>c. c \<in> set BARE_KEY_CHARS) (config_line u) = ''base_url''"
  "dropWhile (\<lambda>c. c \<in> set TOML_WS)
     (dropWhile (\<lambda>c. c \<in> set BARE_KEY_CHARS) (config_line u))
   = CHR ''='' # CHR '' '' # CHR 0x22 # u @ [CHR 0x22, CHR 0x0A]"
  by (simp_all add: config_line_def BARE_KEY_CHARS_def TOML_WS_def)

text \<open>The written line parses to the document with the one entry, for every plain
  string between the quotes.\<close>

lemma toml_fragment_config_line:
  assumes "plain_str u"
  shows "toml_fragment (config_line u) = Some (Inr (VDict [(''base_url'', VStr u)]))"
proof -
  have cr: "CHR 0x0D \<notin> set (config_line u)"
    using plain_no_cr [OF assms] by (simp add: config_line_def)
  have same: "replace_crlf (config_line u) = config_line u"
    by (rule replace_crlf_id [OF cr])
  have body: "take 2 (u @ [CHR 0x22, CHR 0x0A]) \<noteq> [CHR 0x22, CHR 0x22]"
    using assms by (cases u) (simp_all add: plain_str_def)
  have kv: "key_value ''base_url'' (CHR '' '' # CHR 0x22 # u @ [CHR 0x22, CHR 0x0A])
              = Some (Inr (VDict [(''base_url'', VStr u)]))"
    using body parse_basic_str_plain [OF assms, of "[]" "[CHR 0x0A]"]
    by (simp add: key_value_def TOML_WS_def after_statement_def)
  have ne: "config_line u \<noteq> []"
    by (simp add: config_line_def)
  show ?thesis
    unfolding toml_fragment_def same key_of_config_line
    using kv ne by simp
qed

lemma reads_toml_fragment_load: "reads_toml fragment_load"
  by (auto simp: reads_toml_def fragment_load_def split: option.splits sum.splits)

lemma plain_example: "plain_str ''https://example.com''"
  by (simp add: plain_str_def illegal_basic_str_char_def)

subsection \<open>Runs of \<open>configure\<close>\<close>

lemma configure_fresh:
  "snd (snd (configure example_home no_files ''https://example.com/'')) = None"
  by (simp add: configure_def Path_mkdir.simps os_mkdir_def node_at_def parent_def
        no_files_def example_home_def invite_CONFIG_PATH_def write_text_def
        normalize_base_url_def)

lemma configure_fresh_fault:
  "fault (fst (configure example_home no_files ''https://example.com/'')) op = None"
  by (simp add: configure_def Path_mkdir.simps os_mkdir_def node_at_def parent_def
        no_files_def example_home_def invite_CONFIG_PATH_def write_text_def
        normalize_base_url_def)

lemma configure_over_old:
  "snd (snd (configure example_home (one_file (invite_CONFIG_PATH example_home) old_line)
               ''https://example.com/'')) = None"
  by (simp add: configure_def Path_mkdir.simps os_mkdir_def Path_is_dir_def os_stat_def
        node_at_def parent_def one_file_def example_home_def old_line_def
        invite_CONFIG_PATH_def write_text_def normalize_base_url_def)

lemma configure_over_old_fault:
  "fault (fst (configure example_home (one_file (invite_CONFIG_PATH example_home) old_line)
               ''https://example.com/'')) op = None"
  by (simp add: configure_def Path_mkdir.simps os_mkdir_def Path_is_dir_def os_stat_def
        node_at_def parent_def one_file_def example_home_def old_line_def
        invite_CONFIG_PATH_def write_text_def normalize_base_url_def)

lemma configure_backslash:
  "snd (snd (configure example_home no_files backslash_url)) = None"
  by (simp add: configure_def Path_mkdir.simps os_mkdir_def node_at_def parent_def
        no_files_def example_home_def invite_CONFIG_PATH_def write_text_def
        normalize_base_url_def)

lemma bearer_is_ascii:
  "is_ascii a \<Longrightarrow>
     list_all (\<lambda>(k, v). is_ascii k \<and> is_ascii v)
       (if a \<noteq> [] then [(''Authorization'', ''Bearer '' @ a)] else [])"
  by (simp add: is_ascii_def)

lemma aenter_opened:
  assumes "aenter url_ok (APIClient_init s) = Inr self"
  shows "self = \<lparr>settings = s,
                  client = Some \<lparr>client_base_url = base_url s,
                                  client_headers =
                                    (case token s of
                                       None \<Rightarrow> []
                                     | Some t \<Rightarrow>
                                         if t \<noteq> [] then [(''Authorization'', ''Bearer '' @ t)]
                                         else []),
                                  client_timeout = 10, client_connect_timeout = 10\<rparr>\<rparr>"
proof -
  let ?h = "case token s of None \<Rightarrow> []
            | Some t \<Rightarrow> if t \<noteq> [] then [(''Authorization'', ''Bearer '' @ t)] else []"
  have a: "aenter url_ok (APIClient_init s)
             = (case AsyncClient_init url_ok (base_url s) ?h 10 10 of
                  Inl exc \<Rightarrow> Inl exc
                | Inr c \<Rightarrow> Inr \<lparr>settings = s, client = Some c\<rparr>)"
    by (simp add: aenter_def APIClient_init_def split: sum.splits)
  show ?thesis
  proof (cases "AsyncClient_init url_ok (base_url s) ?h 10 10")
    case (Inl exc)
    with a assms show ?thesis by simp
  next
    case (Inr c)
    then have "c = \<lparr>client_base_url = base_url s, client_headers = ?h,
                     client_timeout = 10, client_connect_timeout = 10\<rparr>"
      unfolding AsyncClient_init_def by (simp split: if_splits)
    with a assms Inr show ?thesis by simp
  qed
qed

lemma aenter_opens:
  assumes "url_ok (base_url s)"
    and "token s = None \<or> (\<exists>a. token s = Some a \<and> is_ascii a)"
  shows "\<exists>opened. aenter url_ok (APIClient_init s) = Inr opened"
proof (cases "token s")
  case None
  with assms(1) show ?thesis
    by (simp add: aenter_def APIClient_init_def AsyncClient_init_def)
next
  case (Some a)
  with assms(2) have "is_ascii a" by simp
  from bearer_is_ascii [OF this] Some assms(1) show ?thesis
    unfolding aenter_def APIClient_init_def AsyncClient_init_def by simp
qed

section \<open>Settings resolver\<close>

text \<open>
  C1, as the code has it. Whenever reading the config file returns, \<open>load_settings\<close>
  returns settings whose \<open>base_url\<close> comes from the highest-precedence source that is
  neither absent nor the empty string: the explicit value, else the environment
  variable, else the file value, each with its trailing \<open>/\<close> characters stripped; when
  all three are absent or empty it is the default \<open>http://localhost:8000\<close>. The
  result never ends in \<open>/\<close>.
\<close>

theorem base_url_first_nonempty_source:
  assumes "read_config_file toml_load fs (CONFIG_PATH home) = Inr fc"
  shows "\<exists>s. load_settings toml_load home fs env cli ct cc oj q = Inr s
          \<and> (cli = Some c \<and> c \<noteq> [] \<longrightarrow> base_url s = rstrip ''/'' c)
          \<and> (\<not> truthy_opt cli \<and> env ''OPENRSVP_BASE_URL'' = Some e \<and> e \<noteq> [] \<longrightarrow>
               base_url s = rstrip ''/'' e)
          \<and> (\<not> truthy_opt cli \<and> \<not> truthy_opt (env ''OPENRSVP_BASE_URL'')
               \<and> opt_get fc ''base_url'' = Some f \<and> f \<noteq> [] \<longrightarrow>
               base_url s = rstrip ''/'' f)
          \<and> (\<not> truthy_opt cli \<and> \<not> truthy_opt (env ''OPENRSVP_BASE_URL'')
               \<and> \<not> truthy_opt (opt_get fc ''base_url'') \<longrightarrow>
               base_url s = ''http://localhost:8000'')
          \<and> (base_url s = [] \<or> last (base_url s) \<noteq> CHR ''/'')"
proof -
  have nt: "\<And>x. rstrip ''/'' x = [] \<or> last (rstrip ''/'' x) \<noteq> CHR ''/''"
    using rstrip_no_trailing [of "''/''"] by simp
  show ?thesis
    using assms nt rstrip_default
    by (cases cli; cases "env ''OPENRSVP_BASE_URL''"; cases "opt_get fc ''base_url''")
       (simp_all add: load_settings_def py_or_str_def)
qed

text \<open>
  Four runs of C1's theorem: an explicit value with two trailing slashes wins; an empty
  explicit value gives way to the environment; with nothing explicit and no variable
  the file's section is used; with no file either, the default.
\<close>

theorem base_url_first_nonempty_source_witness:
  "read_config_file (parsed_as example_doc) (one_file (CONFIG_PATH example_home) ''...'')
        (CONFIG_PATH example_home)
      = Inr [(''base_url'', Some ''https://x''), (''token'', None), (''default_channel'', None)]
   \<and> (\<exists>s. load_settings (parsed_as example_doc) example_home
             (one_file (CONFIG_PATH example_home) ''...'')
             (only_env ''OPENRSVP_BASE_URL'' ''http://e/'')
             (Some ''http://cli//'') None None False False = Inr s
          \<and> base_url s = ''http://cli'')
   \<and> (\<exists>s. load_settings (parsed_as example_doc) example_home
             (one_file (CONFIG_PATH example_home) ''...'')
             (only_env ''OPENRSVP_BASE_URL'' ''http://e/'')
             (Some '''') None None False False = Inr s
          \<and> base_url s = ''http://e'')
   \<and> (\<exists>s. load_settings (parsed_as example_doc) example_home
             (one_file (CONFIG_PATH example_home) ''...'') (\<lambda>k. None)
             None None None False False = Inr s
          \<and> base_url s = ''https://x'')
   \<and> (\<exists>s. load_settings corrupt_toml example_home no_files (\<lambda>k. None)
             None None None False False = Inr s
          \<and> base_url s = ''http://localhost:8000'')"
proof -
  note a = read_example_doc
  note a' = read_nothing
  have r: "rstrip ''/'' ''http://cli//'' = ''http://cli''" "rstrip ''/'' ''http://e/'' = ''http://e''"
    "rstrip ''/'' ''https://x'' = ''https://x''"
    by (simp_all add: rstrip_def)
  show ?thesis
    using a r
      base_url_first_nonempty_source
        [OF a, of "only_env ''OPENRSVP_BASE_URL'' ''http://e/''" "Some ''http://cli//''"
            None None False False "''http://cli//''" "''http://e/''" "''https://x''"]
      base_url_first_nonempty_source
        [OF a, of "only_env ''OPENRSVP_BASE_URL'' ''http://e/''" "Some ''''"
            None None False False "''''" "''http://e/''" "''https://x''"]
      base_url_first_nonempty_source
        [OF a, of "\<lambda>k. None" None None None False False "''''" "''''" "''https://x''"]
      base_url_first_nonempty_source
        [OF a', of "\<lambda>k. None" None None None False False "''''" "''''" "''''"]
    by (auto simp: only_env_def opt_get_def)
qed

text \<open>
  C1 as stated fails: the explicit value is the empty string, so it is not absent, and
  the environment holds \<open>http://e\<close>. The claim resolves to the explicit value, which
  is empty; the code resolves to \<open>http://e\<close>.
\<close>

theorem empty_explicit_base_url_counterexample:
  "load_settings corrupt_toml example_home no_files (only_env ''OPENRSVP_BASE_URL'' ''http://e'')
      (Some '''') None None False False
     = Inr \<lparr>base_url = ''http://e'', token = None, default_channel = None,
            output_json = False, quiet = False\<rparr>
   \<and> claimed_base_url (Some '''')
        (only_env ''OPENRSVP_BASE_URL'' ''http://e'' ''OPENRSVP_BASE_URL'') None = ''''
   \<and> ''http://e'' \<noteq> claimed_base_url (Some '''')
        (only_env ''OPENRSVP_BASE_URL'' ''http://e'' ''OPENRSVP_BASE_URL'') None"
  by (simp add: load_settings_def read_nothing only_env_def py_or_str_def py_or_def opt_get_def
        claimed_base_url_def rstrip_def)

text \<open>
  C10. In \<open>load_settings\<close> an explicit value or an environment variable that is the
  empty string counts exactly as an absent one: replacing \<^verbatim>\<open>""\<close> by \<^verbatim>\<open>None\<close> in any
  of the three explicit arguments, or unsetting any of the three variables that is set
  to \<^verbatim>\<open>""\<close>, changes nothing in the outcome. With all explicit values empty each field
  is what the \<^verbatim>\<open>or\<close> chain of the environment and the file gives, and with the
  variables empty as well it is the file's value, or the default for \<open>base_url\<close>.
\<close>

theorem empty_string_is_absent:
  "load_settings L H F E (Some '''') ct cc oj q = load_settings L H F E None ct cc oj q
 \<and> load_settings L H F E cb (Some '''') cc oj q = load_settings L H F E cb None cc oj q
 \<and> load_settings L H F E cb ct (Some '''') oj q = load_settings L H F E cb ct None oj q
 \<and> load_settings L H F (E(''OPENRSVP_BASE_URL'' \<mapsto> '''')) cb ct cc oj q
     = load_settings L H F (E(''OPENRSVP_BASE_URL'' := None)) cb ct cc oj q
 \<and> load_settings L H F (E(''OPENRSVP_TOKEN'' \<mapsto> '''')) cb ct cc oj q
     = load_settings L H F (E(''OPENRSVP_TOKEN'' := None)) cb ct cc oj q
 \<and> load_settings L H F (E(''OPENRSVP_DEFAULT_CHANNEL'' \<mapsto> '''')) cb ct cc oj q
     = load_settings L H F (E(''OPENRSVP_DEFAULT_CHANNEL'' := None)) cb ct cc oj q
 \<and> (read_config_file L F (CONFIG_PATH H) = Inr fc \<longrightarrow>
       load_settings L H F E (Some '''') (Some '''') (Some '''') oj q
         = Inr \<lparr>base_url = rstrip ''/''
                   (py_or_str (E ''OPENRSVP_BASE_URL'')
                      (py_or_str (opt_get fc ''base_url'') ''http://localhost:8000'')),
                token = py_or (E ''OPENRSVP_TOKEN'') (opt_get fc ''token''),
                default_channel = py_or (E ''OPENRSVP_DEFAULT_CHANNEL'')
                                    (opt_get fc ''default_channel''),
                output_json = oj, quiet = q\<rparr>
     \<and> load_settings L H F empty_env (Some '''') (Some '''') (Some '''') oj q
         = Inr \<lparr>base_url = rstrip ''/''
                   (py_or_str (opt_get fc ''base_url'') ''http://localhost:8000''),
                token = opt_get fc ''token'',
                default_channel = opt_get fc ''default_channel'',
                output_json = oj, quiet = q\<rparr>)"
  by (simp add: load_settings_def py_or_def py_or_str_def empty_env_def split: sum.splits)

text \<open>
  C10 run on the example file, whose section holds only \<open>base_url\<close>: with all
  explicit values empty the token comes from the environment, and with the variables
  empty too nothing but the file's \<open>base_url\<close> is left.
\<close>

theorem empty_string_is_absent_witness:
  "read_config_file (parsed_as example_doc) (one_file (CONFIG_PATH example_home) ''...'')
        (CONFIG_PATH example_home)
      = Inr [(''base_url'', Some ''https://x''), (''token'', None), (''default_channel'', None)]
   \<and> load_settings (parsed_as example_doc) example_home
        (one_file (CONFIG_PATH example_home) ''...'') (only_env ''OPENRSVP_TOKEN'' ''tok'')
        (Some '''') (Some '''') (Some '''') False False
     = Inr \<lparr>base_url = ''https://x'', token = Some ''tok'', default_channel = None,
            output_json = False, quiet = False\<rparr>
   \<and> load_settings (parsed_as example_doc) example_home
        (one_file (CONFIG_PATH example_home) ''...'') empty_env
        (Some '''') (Some '''') (Some '''') False False
     = Inr \<lparr>base_url = ''https://x'', token = None, default_channel = None,
            output_json = False, quiet = False\<rparr>"
proof -
  note a = read_example_doc
  note b = empty_string_is_absent
      [where L = "parsed_as example_doc" and H = example_home
         and F = "one_file (CONFIG_PATH example_home) ''...''"
         and E = "only_env ''OPENRSVP_TOKEN'' ''tok''" and oj = False and q = False
         and cb = None and ct = None and cc = None
         and fc = "[(''base_url'', Some ''https://x''), (''token'', None),
                    (''default_channel'', None)]",
       THEN conjunct2, THEN conjunct2, THEN conjunct2, THEN conjunct2, THEN conjunct2,
       THEN conjunct2, THEN mp, OF a]
  show ?thesis
    using a b by (simp add: py_or_def py_or_str_def opt_get_def only_env_def rstrip_def)
qed

section \<open>Config store: reading\<close>

text \<open>
  C3 on a config directory that cannot be searched, where no config file exists. The
  claim has \<open>read_config_file\<close> return the empty result without raising. The
  existence test stands outside the \<^verbatim>\<open>try\<close>, so the \<open>PermissionError\<close> of
  \<^verbatim>\<open>path.exists()\<close> leaves \<open>read_config_file\<close>, and \<open>load_settings\<close> with it.
\<close>

theorem locked_directory_read_raises:
  "node_at (locked_dir (example_home @ [''.openrsvp''])) (CONFIG_PATH example_home) = None
   \<and> path_exists (locked_dir (example_home @ [''.openrsvp''])) (CONFIG_PATH example_home)
       = Inl PermissionError
   \<and> read_config_file corrupt_toml (locked_dir (example_home @ [''.openrsvp'']))
        (CONFIG_PATH example_home) = Inl (OSError PermissionError)
   \<and> load_settings corrupt_toml example_home (locked_dir (example_home @ [''.openrsvp'']))
        (\<lambda>k. None) None None None False False = Inl (OSError PermissionError)"
  by (simp add: load_settings_def read_config_file_def path_exists_def os_stat_def
        ignore_error_def node_at_def locked_dir_def example_home_def CONFIG_PATH_def)




section \<open>Config store: writing\<close>

text \<open>What \<open>configure\<close> leaves behind when it returns, and what
  \<open>load_config_base_url\<close> makes of it.\<close>

lemma configure_writes:
  assumes "configure home fs b = (fs', out, None)"
  shows "node_at fs' (invite_CONFIG_PATH home) = Some (File (config_line (rstrip ''/'' b)))
       \<and> is_dir fs' (parent (invite_CONFIG_PATH home))
       \<and> fault fs' (OpStat (invite_CONFIG_PATH home)) = None"
proof -
  from assms obtain fs1 where
    w: "write_text fs1 (invite_CONFIG_PATH home) (config_line (rstrip ''/'' b)) = Inr fs'"
    by (auto simp: configure_def normalize_base_url_def split: sum.splits)
  from write_text_result [OF w] show ?thesis by simp
qed

lemma load_after_configure:
  assumes "configure home fs b = (fs', out, None)"
    and "fault fs' (OpOpen (invite_CONFIG_PATH home)) = None"
  shows "load_config_base_url toml_load home fs'
           = (case toml_load (config_line (rstrip ''/'' b)) of
                Inl exc \<Rightarrow> Inr None
              | Inr data \<Rightarrow>
                  (case value_get data ''base_url'' VNone of
                     Inl exc \<Rightarrow> Inr None
                   | Inr v \<Rightarrow> Inr (if truthy v then Some (py_str v) else None)))"
proof -
  note w = configure_writes [OF assms(1)]
  from w assms(2)
  have o: "open_read fs' (invite_CONFIG_PATH home) = Inr (config_line (rstrip ''/'' b))"
    by (simp add: open_read_def)
  from open_read_exists [OF o] o show ?thesis
    by (simp add: load_config_base_url_def split: sum.splits)
qed

lemma written_backslash:
  "toml_fragment (config_line (''http://a'' @ [CHR 0x5C] @ ''b''))
     = Some (Inr (VDict [(''base_url'', VStr (''http://a'' @ [CHR 0x08]))]))"
proof -
  have same: "replace_crlf (config_line (''http://a'' @ [CHR 0x5C] @ ''b''))
                = config_line (''http://a'' @ [CHR 0x5C] @ ''b'')"
    by (rule replace_crlf_id) (simp add: config_line_def)
  have ne: "config_line (''http://a'' @ [CHR 0x5C] @ ''b'') \<noteq> []"
    by (simp add: config_line_def)
  have kv: "key_value ''base_url''
              (CHR '' '' # CHR 0x22 # (''http://a'' @ [CHR 0x5C] @ ''b'') @ [CHR 0x22, CHR 0x0A])
              = Some (Inr (VDict [(''base_url'', VStr (''http://a'' @ [CHR 0x08]))]))"
    by (simp add: key_value_def TOML_WS_def after_statement_def basic_str_escape_def
          illegal_basic_str_char_def)
  show ?thesis
    unfolding toml_fragment_def same key_of_config_line
    using kv ne by simp
qed

text \<open>
  C8, as the code has it. After \<open>configure\<close> has returned, the config file holds
  the one line \<^verbatim>\<open>base_url = "<url without trailing slashes>"\<close>, whatever it held
  before, and its parent directory exists. For a parser that reads TOML, and when the
  file can be opened: if the normalized URL is not empty and has no double quote, no
  backslash and no control character in it, \<open>load_config_base_url\<close> yields the
  normalized URL. For \<^verbatim>\<open>https://example.com/\<close> it yields \<^verbatim>\<open>https://example.com\<close>.
\<close>

theorem configure_then_load_round_trip:
  assumes "configure home fs b = (fs', out, None)"
    and "fault fs' (OpOpen (invite_CONFIG_PATH home)) = None"
    and "reads_toml toml_load"
    and "rstrip ''/'' b \<noteq> []"
    and "plain_str (rstrip ''/'' b)"
  shows "node_at fs' (invite_CONFIG_PATH home) = Some (File (config_line (rstrip ''/'' b)))
       \<and> is_dir fs' (parent (invite_CONFIG_PATH home))
       \<and> load_config_base_url toml_load home fs' = Inr (Some (rstrip ''/'' b))"
proof -
  from assms(3) toml_fragment_config_line [OF assms(5)]
  have p: "toml_load (config_line (rstrip ''/'' b))
             = Inr (VDict [(''base_url'', VStr (rstrip ''/'' b))])"
    unfolding reads_toml_def
    by (auto dest!: spec [where x = "config_line (rstrip ''/'' b)"])
  from load_after_configure [OF assms(1,2), of toml_load] p assms(4)
  have "load_config_base_url toml_load home fs' = Inr (Some (rstrip ''/'' b))"
    by (simp add: value_get_def py_str_def)
  with configure_writes [OF assms(1)] show ?thesis by simp
qed

text \<open>C8 on \<^verbatim>\<open>https://example.com/\<close>, written into an empty file system and over an
  older config file, and read back with the TOML rules for a document of one line.\<close>

theorem configure_then_load_round_trip_witness:
  "snd (snd (configure example_home no_files ''https://example.com/'')) = None
   \<and> load_config_base_url fragment_load example_home
        (fst (configure example_home no_files ''https://example.com/''))
       = Inr (Some ''https://example.com'')
   \<and> snd (snd (configure example_home (one_file (invite_CONFIG_PATH example_home) old_line)
                  ''https://example.com/'')) = None
   \<and> load_config_base_url fragment_load example_home
        (fst (configure example_home (one_file (invite_CONFIG_PATH example_home) old_line)
                ''https://example.com/''))
       = Inr (Some ''https://example.com'')"
proof -
  have ne: "rstrip ''/'' ''https://example.com/'' \<noteq> []"
    and pl: "plain_str (rstrip ''/'' ''https://example.com/'')"
    by (simp_all add: rstrip_example plain_example)
  have c1: "configure example_home no_files ''https://example.com/''
              = (fst (configure example_home no_files ''https://example.com/''),
                 fst (snd (configure example_home no_files ''https://example.com/'')), None)"
    using configure_fresh by (metis prod.collapse)
  have c2: "configure example_home (one_file (invite_CONFIG_PATH example_home) old_line)
                ''https://example.com/''
              = (fst (configure example_home (one_file (invite_CONFIG_PATH example_home) old_line)
                        ''https://example.com/''),
                 fst (snd (configure example_home
                             (one_file (invite_CONFIG_PATH example_home) old_line)
                             ''https://example.com/'')), None)"
    using configure_over_old by (metis prod.collapse)
  show ?thesis
    using configure_fresh configure_over_old
      configure_then_load_round_trip
        [OF c1 configure_fresh_fault reads_toml_fragment_load ne pl]
      configure_then_load_round_trip
        [OF c2 configure_over_old_fault reads_toml_fragment_load ne pl]
    by (simp add: rstrip_example)
qed

text \<open>
  C8 as stated fails for a base URL with a backslash: \<open>configure\<close> writes
  \<^verbatim>\<open>base_url = "http://a\b"\<close>, in which TOML reads \<^verbatim>\<open>\b\<close> as the backspace
  character, so what is read back is not the normalized URL.
\<close>

theorem backslash_url_round_trip_counterexample:
  "snd (snd (configure example_home no_files backslash_url)) = None
   \<and> rstrip ''/'' backslash_url = ''http://a'' @ [CHR 0x5C] @ ''b''
   \<and> load_config_base_url fragment_load example_home
        (fst (configure example_home no_files backslash_url))
       = Inr (Some (''http://a'' @ [CHR 0x08]))
   \<and> Some (''http://a'' @ [CHR 0x08]) \<noteq> Some (rstrip ''/'' backslash_url)"
proof -
  have r: "rstrip ''/'' backslash_url = ''http://a'' @ [CHR 0x5C] @ ''b''"
    by (simp add: rstrip_def backslash_url_def)
  have c: "configure example_home no_files backslash_url
              = (fst (configure example_home no_files backslash_url),
                 fst (snd (configure example_home no_files backslash_url)), None)"
    using configure_backslash by (metis prod.collapse)
  have f: "fault (fst (configure example_home no_files backslash_url))
             (OpOpen (invite_CONFIG_PATH example_home)) = None"
    by (simp add: configure_def Path_mkdir.simps os_mkdir_def node_at_def parent_def
          no_files_def example_home_def invite_CONFIG_PATH_def write_text_def
          normalize_base_url_def)
  have l: "fragment_load (config_line (rstrip ''/'' backslash_url))
             = Inr (VDict [(''base_url'', VStr (''http://a'' @ [CHR 0x08]))])"
    using written_backslash by (simp add: fragment_load_def r)
  from load_after_configure [OF c f, of fragment_load] l
  have "load_config_base_url fragment_load example_home
          (fst (configure example_home no_files backslash_url))
        = Inr (Some (''http://a'' @ [CHR 0x08]))"
    by (simp add: value_get_def py_str_def)
  with configure_backslash r show ?thesis by simp
qed

text \<open>
  C9. \<open>set_base_url\<close>, for any write function: when the write raises, the command
  prints the failure with the exception and exits with code 1; when it returns a path,
  the command prints that path. The write modelled from the specification either
  returns the config path, with the normalized line in the file and the parent
  directory in place, or raises \<open>ConfigWriteError\<close> around the error of the
  directory creation or of the file write that failed.
\<close>

theorem write_failure_is_reported:
  "((save (py_or_str a (py_or_str opt ''http://localhost:8000'')) fs = (fs', Inl exc) \<longrightarrow>
       set_base_url save fs a opt
         = (fs', [[Lit ''[red]Failed to update config: '', Exc_str exc, Lit ''[/red]'']],
            Some (Exit 1)))
    \<and> (save (py_or_str a (py_or_str opt ''http://localhost:8000'')) fs = (fs', Inr p) \<longrightarrow>
       set_base_url save fs a opt
         = (fs', [[Lit ''[green]Saved base_url to '', Path_str p, Lit ''[/green]'']], None)))
   \<and> ((\<exists>fs2. save_base_url home u fs = (fs2, Inr (CONFIG_PATH home))
           \<and> node_at fs2 (CONFIG_PATH home) = Some (File (config_line (rstrip ''/'' u)))
           \<and> is_dir fs2 (parent (CONFIG_PATH home)))
      \<or> (\<exists>fs2 e. save_base_url home u fs = (fs2, Inl (ConfigWriteError e))
           \<and> (Path_mkdir fs (parent (CONFIG_PATH home)) True True = Inl e
               \<or> (\<exists>fs1. Path_mkdir fs (parent (CONFIG_PATH home)) True True = Inr fs1
                     \<and> write_text fs1 (CONFIG_PATH home) (config_line (rstrip ''/'' u))
                         = Inl e))))"
proof -
  have handler:
    "(save (py_or_str a (py_or_str opt ''http://localhost:8000'')) fs = (fs', Inl exc) \<longrightarrow>
       set_base_url save fs a opt
         = (fs', [[Lit ''[red]Failed to update config: '', Exc_str exc, Lit ''[/red]'']],
            Some (Exit 1)))
    \<and> (save (py_or_str a (py_or_str opt ''http://localhost:8000'')) fs = (fs', Inr p) \<longrightarrow>
       set_base_url save fs a opt
         = (fs', [[Lit ''[green]Saved base_url to '', Path_str p, Lit ''[/green]'']], None))"
    by (simp add: set_base_url_def)
  have store:
    "(\<exists>fs2. save_base_url home u fs = (fs2, Inr (CONFIG_PATH home))
           \<and> node_at fs2 (CONFIG_PATH home) = Some (File (config_line (rstrip ''/'' u)))
           \<and> is_dir fs2 (parent (CONFIG_PATH home)))
      \<or> (\<exists>fs2 e. save_base_url home u fs = (fs2, Inl (ConfigWriteError e))
           \<and> (Path_mkdir fs (parent (CONFIG_PATH home)) True True = Inl e
               \<or> (\<exists>fs1. Path_mkdir fs (parent (CONFIG_PATH home)) True True = Inr fs1
                     \<and> write_text fs1 (CONFIG_PATH home) (config_line (rstrip ''/'' u))
                         = Inl e)))"
  proof (cases "Path_mkdir fs (parent (CONFIG_PATH home)) True True")
    case (Inl e)
    then show ?thesis by (simp add: save_base_url_def)
  next
    case (Inr fs1)
    show ?thesis
    proof (cases "write_text fs1 (CONFIG_PATH home) (config_line (rstrip ''/'' u))")
      case (Inl e)
      with Inr show ?thesis by (simp add: save_base_url_def)
    next
      case w: (Inr fs2)
      from write_text_result [OF w] Inr w show ?thesis by (simp add: save_base_url_def)
    qed
  qed
  from handler store show ?thesis by blast
qed

text \<open>C9 run twice: on a file system that refuses every operation, and on an empty
  one.\<close>

theorem write_failure_is_reported_witness:
  "set_base_url (save_base_url example_home) read_only (Some ''https://example.com/'') None
     = (read_only,
        [[Lit ''[red]Failed to update config: '', Exc_str (ConfigWriteError PermissionError),
          Lit ''[/red]'']],
        Some (Exit 1))
   \<and> snd (set_base_url (save_base_url example_home) no_files (Some ''https://example.com/'') None)
     = ([[Lit ''[green]Saved base_url to '', Path_str (CONFIG_PATH example_home),
          Lit ''[/green]'']], None)"
proof -
  have u: "py_or_str (Some ''https://example.com/'') (py_or_str None ''http://localhost:8000'')
             = ''https://example.com/''"
    by (simp add: py_or_str_def)
  have f: "save_base_url example_home ''https://example.com/'' read_only
             = (read_only, Inl (ConfigWriteError PermissionError))"
    by (simp add: save_base_url_def Path_mkdir.simps os_mkdir_def Path_is_dir_def os_stat_def
          ignore_error_def read_only_def node_at_def parent_def CONFIG_PATH_def
          example_home_def)
  have g: "snd (save_base_url example_home ''https://example.com/'' no_files)
             = Inr (CONFIG_PATH example_home)"
    by (simp add: save_base_url_def Path_mkdir.simps os_mkdir_def write_text_def node_at_def
          parent_def no_files_def CONFIG_PATH_def example_home_def)
  then have g': "save_base_url example_home ''https://example.com/'' no_files
             = (fst (save_base_url example_home ''https://example.com/'' no_files),
                Inr (CONFIG_PATH example_home))"
    by (metis prod.collapse)
  from write_failure_is_reported
         [where a = "Some ''https://example.com/''" and opt = None
            and save = "save_base_url example_home"
            and fs = read_only and fs' = read_only
            and exc = "ConfigWriteError PermissionError",
          THEN conjunct1, THEN conjunct1] u f
  have one: "set_base_url (save_base_url example_home) read_only
               (Some ''https://example.com/'') None
     = (read_only,
        [[Lit ''[red]Failed to update config: '', Exc_str (ConfigWriteError PermissionError),
          Lit ''[/red]'']],
        Some (Exit 1))"
    by simp
  from write_failure_is_reported
         [where a = "Some ''https://example.com/''" and opt = None
            and save = "save_base_url example_home" and fs = no_files
            and fs' = "fst (save_base_url example_home ''https://example.com/'' no_files)"
            and p = "CONFIG_PATH example_home", THEN conjunct1, THEN conjunct2] u g'
  have two: "snd (set_base_url (save_base_url example_home) no_files
                    (Some ''https://example.com/'') None)
     = ([[Lit ''[green]Saved base_url to '', Path_str (CONFIG_PATH example_home),
          Lit ''[/green]'']], None)"
    by simp
  from one two show ?thesis by simp
qed

section \<open>API client\<close>

text \<open>
  C7, as the code has it. Whenever \<open>aenter\<close> opens the client on some settings, the
  client puts into every request it builds the header \<open>Authorization: Bearer <token>\<close>
  when the token is present and not the empty string, and no header at all when the
  token is absent or empty; \<open>request\<close> consults the network on that one request
  only. The client opens whenever httpx accepts the base URL and the token, if there
  is one, is ASCII.
\<close>

theorem authorization_header_iff_nonempty_token:
  "(aenter url_ok (APIClient_init s) = Inr self \<longrightarrow>
      (\<exists>c. client self = Some c
         \<and> (token s = Some t \<and> t \<noteq> [] \<longrightarrow>
              req_headers (client_request c verb p kwargs)
                = [(''Authorization'', ''Bearer '' @ t)])
         \<and> (token s = None \<or> token s = Some [] \<longrightarrow>
              req_headers (client_request c verb p kwargs) = [])
         \<and> request send self verb p kwargs
             = request (\<lambda>req. if req = client_request c verb p kwargs then send req
                              else RequestFailed [])
                 self verb p kwargs))
   \<and> (url_ok (base_url s) \<and> (token s = None \<or> (\<exists>a. token s = Some a \<and> is_ascii a)) \<longrightarrow>
        (\<exists>opened. aenter url_ok (APIClient_init s) = Inr opened))"
proof (intro conjI impI)
  assume "aenter url_ok (APIClient_init s) = Inr self"
  from aenter_opened [OF this] obtain c where
    c: "client self = Some c"
    and h: "client_headers c
              = (case token s of
                   None \<Rightarrow> []
                 | Some t \<Rightarrow> if t \<noteq> [] then [(''Authorization'', ''Bearer '' @ t)] else [])"
    by simp
  have one: "token s = Some t \<and> t \<noteq> [] \<longrightarrow>
               req_headers (client_request c verb p kwargs)
                 = [(''Authorization'', ''Bearer '' @ t)]"
    using h by (simp add: client_request_def)
  have two: "token s = None \<or> token s = Some [] \<longrightarrow>
               req_headers (client_request c verb p kwargs) = []"
    using h by (auto simp: client_request_def)
  have three: "request send self verb p kwargs
                 = request (\<lambda>req. if req = client_request c verb p kwargs then send req
                                  else RequestFailed [])
                     self verb p kwargs"
    using c by (simp add: request_def)
  from c one two three
  show "\<exists>c. client self = Some c
         \<and> (token s = Some t \<and> t \<noteq> [] \<longrightarrow>
              req_headers (client_request c verb p kwargs)
                = [(''Authorization'', ''Bearer '' @ t)])
         \<and> (token s = None \<or> token s = Some [] \<longrightarrow>
              req_headers (client_request c verb p kwargs) = [])
         \<and> request send self verb p kwargs
             = request (\<lambda>req. if req = client_request c verb p kwargs then send req
                              else RequestFailed [])
                 self verb p kwargs"
    by blast
next
  assume "url_ok (base_url s) \<and> (token s = None \<or> (\<exists>a. token s = Some a \<and> is_ascii a))"
  then show "\<exists>opened. aenter url_ok (APIClient_init s) = Inr opened"
    using aenter_opens by blast
qed

text \<open>C7 end to end: the explicit token \<open>abc\<close>, no variable and no file, resolves to
  settings whose client opens and sends \<open>Bearer abc\<close>; without a token the client
  opens and sends no header.\<close>

theorem authorization_header_iff_nonempty_token_witness:
  "load_settings corrupt_toml example_home no_files (\<lambda>k. None) None (Some ''abc'') None False False
     = Inr (local_settings (Some ''abc''))
   \<and> (\<exists>opened c. aenter any_url (APIClient_init (local_settings (Some ''abc''))) = Inr opened
        \<and> client opened = Some c
        \<and> req_headers (client_request c ''GET'' ''/api/v1/events'' [(''params'', VNone)])
            = [(''Authorization'', ''Bearer abc'')])
   \<and> (\<exists>opened c. aenter any_url (APIClient_init (local_settings None)) = Inr opened
        \<and> client opened = Some c
        \<and> req_headers (client_request c ''GET'' ''/api/v1/events'' [(''params'', VNone)]) = [])"
proof -
  have a: "load_settings corrupt_toml example_home no_files (\<lambda>k. None) None (Some ''abc'') None
             False False = Inr (local_settings (Some ''abc''))"
    by (simp add: load_settings_def read_nothing py_or_def py_or_str_def opt_get_def
          rstrip_default local_settings_def)
  have t1: "token (local_settings (Some ''abc'')) = Some ''abc''"
    and t2: "token (local_settings None) = None"
    and u1: "any_url (base_url (local_settings (Some ''abc'')))"
    and u2: "any_url (base_url (local_settings None))"
    and i: "is_ascii ''abc''"
    by (simp_all add: local_settings_def any_url_def is_ascii_def)
  have p1: "any_url (base_url (local_settings (Some ''abc'')))
            \<and> (token (local_settings (Some ''abc'')) = None
               \<or> (\<exists>a. token (local_settings (Some ''abc'')) = Some a \<and> is_ascii a))"
    using t1 u1 i by simp
  have p2: "any_url (base_url (local_settings None))
            \<and> (token (local_settings None) = None
               \<or> (\<exists>a. token (local_settings None) = Some a \<and> is_ascii a))"
    using t2 u2 by simp
  from authorization_header_iff_nonempty_token
         [where s = "local_settings (Some ''abc'')" and url_ok = any_url,
          THEN conjunct2, THEN mp, OF p1]
  obtain o1 where o1: "aenter any_url (APIClient_init (local_settings (Some ''abc''))) = Inr o1"
    by blast
  from authorization_header_iff_nonempty_token
         [where s = "local_settings None" and url_ok = any_url,
          THEN conjunct2, THEN mp, OF p2]
  obtain o2 where o2: "aenter any_url (APIClient_init (local_settings None)) = Inr o2"
    by blast
  from authorization_header_iff_nonempty_token
         [where s = "local_settings (Some ''abc'')" and url_ok = any_url and self = o1
            and t = "''abc''" and verb = "''GET''" and p = "''/api/v1/events''"
            and kwargs = "[(''params'', VNone)]" and send = "answers no_content",
          THEN conjunct1, THEN mp, OF o1]
  obtain c1 where c1: "client o1 = Some c1"
    and h1: "token (local_settings (Some ''abc'')) = Some ''abc'' \<and> ''abc'' \<noteq> [] \<longrightarrow>
             req_headers (client_request c1 ''GET'' ''/api/v1/events'' [(''params'', VNone)])
               = [(''Authorization'', ''Bearer '' @ ''abc'')]"
    by blast
  from authorization_header_iff_nonempty_token
         [where s = "local_settings None" and url_ok = any_url and self = o2
            and t = "''abc''" and verb = "''GET''" and p = "''/api/v1/events''"
            and kwargs = "[(''params'', VNone)]" and send = "answers no_content",
          THEN conjunct1, THEN mp, OF o2]
  obtain c2 where c2: "client o2 = Some c2"
    and h2: "token (local_settings None) = None \<or> token (local_settings None) = Some [] \<longrightarrow>
             req_headers (client_request c2 ''GET'' ''/api/v1/events'' [(''params'', VNone)]) = []"
    by blast
  from h1 t1
  have g1: "req_headers (client_request c1 ''GET'' ''/api/v1/events'' [(''params'', VNone)])
              = [(''Authorization'', ''Bearer abc'')]"
    by simp
  from h2 t2
  have g2: "req_headers (client_request c2 ''GET'' ''/api/v1/events'' [(''params'', VNone)]) = []"
    by simp
  from a o1 c1 g1 o2 c2 g2 show ?thesis by blast
qed

text \<open>
  C7 as stated fails: a config file with \<^verbatim>\<open>token = ""\<close> resolves to settings whose
  token is present and empty. The claim sends \<open>Authorization: Bearer \<close>; the client
  opens and sends no header.
\<close>

theorem empty_token_no_header_counterexample:
  "load_settings (parsed_as [(''token'', VStr [])]) example_home
      (one_file (CONFIG_PATH example_home) ''...'') (\<lambda>k. None) None None None False False
     = Inr (local_settings (Some []))
   \<and> token (local_settings (Some [])) = Some []
   \<and> aenter any_url (APIClient_init (local_settings (Some [])))
       = Inr \<lparr>settings = local_settings (Some []), client = Some plain_client\<rparr>
   \<and> req_headers (client_request plain_client ''GET'' ''/api/v1/events'' [(''params'', VNone)])
       = []
   \<and> claimed_headers (local_settings (Some [])) = [(''Authorization'', ''Bearer '')]"
proof -
  have r: "read_config_file (parsed_as [(''token'', VStr [])])
             (one_file (CONFIG_PATH example_home) ''...'') (CONFIG_PATH example_home)
           = Inr [(''base_url'', None), (''token'', Some []), (''default_channel'', None)]"
    by (simp add: read_config_file_def one_file_def CONFIG_PATH_def parsed_as_def
          path_exists_def os_stat_def node_at_def open_read_def isinstance_dict_def
          value_get_def str_unless_none_def py_str_def)
  have l: "load_settings (parsed_as [(''token'', VStr [])]) example_home
             (one_file (CONFIG_PATH example_home) ''...'') (\<lambda>k. None) None None None False False
           = Inr (local_settings (Some []))"
    by (simp add: load_settings_def r py_or_def py_or_str_def opt_get_def rstrip_default
          local_settings_def)
  have o: "aenter any_url (APIClient_init (local_settings (Some [])))
             = Inr \<lparr>settings = local_settings (Some []), client = Some plain_client\<rparr>"
    by (simp add: APIClient_init_def aenter_def AsyncClient_init_def any_url_def
          local_settings_def plain_client_def)
  have h: "req_headers (client_request plain_client ''GET'' ''/api/v1/events''
                          [(''params'', VNone)]) = []"
    by (simp add: client_request_def plain_client_def)
  have c: "claimed_headers (local_settings (Some [])) = [(''Authorization'', ''Bearer '')]"
    by (simp add: claimed_headers_def local_settings_def)
  have t: "token (local_settings (Some [])) = Some []"
    by (simp add: local_settings_def)
  from l t o h c show ?thesis by blast
qed

text \<open>
  C4. On an open client, a response with status 401 or 403 makes \<open>request\<close> raise
  \<open>AuthError\<close> with that status and the fixed message, which names the flag
  \<^verbatim>\<open>--token\<close>, the variable \<^verbatim>\<open>OPENRSVP_TOKEN\<close> and the config file. The body is
  never looked at, so it may be anything. The outcome is neither \<open>NetworkError\<close> nor
  an \<open>APIError\<close> of the base class.
\<close>

theorem auth_status_raises_AuthError:
  assumes "client self = Some c"
    and "send (client_request c verb p kwargs) = Responded r"
    and "status_code r = 401 \<or> status_code r = 403"
  shows "request send self verb p kwargs = Inl (AuthError (status_code r) AUTH_MESSAGE)
       \<and> AUTH_MESSAGE = ''Authentication failed. Provide a valid token via --token, OPENRSVP_TOKEN, or ~/.config/openrsvp/config.toml.''
       \<and> (\<forall>m. request send self verb p kwargs \<noteq> Inl (NetworkError m))
       \<and> (\<forall>st m pl. request send self verb p kwargs \<noteq> Inl (APIError st m pl))"
  using assms by (auto simp: request_def AUTH_MESSAGE_def)

text \<open>C4 on a 401 whose body is HTML, on which \<^verbatim>\<open>response.json()\<close> would raise.\<close>

theorem auth_status_raises_AuthError_witness:
  "aenter any_url (APIClient_init (local_settings None)) = Inr plain_api
   \<and> client plain_api = Some plain_client
   \<and> status_code unauthorized_html = 401
   \<and> json unauthorized_html = None
   \<and> get (answers unauthorized_html) plain_api
        ''/api/v1/events'' [] = Inl (AuthError 401 AUTH_MESSAGE)"
proof -
  have c: "status_code unauthorized_html = 401" "json unauthorized_html = None"
    by (simp_all add: unauthorized_html_def)
  show ?thesis
    using opened_plain client_plain c
      answers_plain [of unauthorized_html "''GET''" "''/api/v1/events''" "[(''params'', VNone)]"]
      auth_status_raises_AuthError
        [where send = "answers unauthorized_html"
           and self = plain_api
           and c = plain_client
           and verb = "''GET''" and p = "''/api/v1/events''"
           and kwargs = "[(''params'', VNone)]" and r = unauthorized_html]
    by (simp add: get_def)
qed

text \<open>
  C5, as the code has it. On an open client, a response with a status from 400 to 599
  other than 401 and 403 makes \<open>request\<close> raise \<open>APIError\<close> with that status and
  the payload: the parsed body, or the body text when it does not parse. The message
  is the payload itself when that is a string; otherwise it is the \<^verbatim>\<open>str\<close> rendering
  of the whole payload when the payload is true, and the body text when the payload is
  false (\<^verbatim>\<open>None\<close>, \<^verbatim>\<open>False\<close>, \<open>0\<close>, an empty list or dictionary).
\<close>

theorem error_status_raises_APIError:
  assumes "client self = Some c"
    and "send (client_request c verb p kwargs) = Responded r"
    and "400 \<le> status_code r" and "status_code r \<le> 599"
    and "status_code r \<noteq> 401" and "status_code r \<noteq> 403"
  shows "(json r = None \<longrightarrow>
            request send self verb p kwargs
              = Inl (APIError (status_code r) (body_text r) (VStr (body_text r))))
       \<and> (json r = Some (VStr m) \<longrightarrow>
            request send self verb p kwargs = Inl (APIError (status_code r) m (VStr m)))
       \<and> (json r = Some v \<and> \<not> isinstance_str v \<and> truthy v \<longrightarrow>
            request send self verb p kwargs = Inl (APIError (status_code r) (py_repr v) v))
       \<and> (json r = Some v \<and> \<not> isinstance_str v \<and> \<not> truthy v \<longrightarrow>
            request send self verb p kwargs = Inl (APIError (status_code r) (body_text r) v))"
  using assms
  by (cases v) (auto simp: request_def is_error_def isinstance_str_def py_str_def)

text \<open>C5 on the 404 with body \<^verbatim>\<open>{"detail": "not found"}\<close>: the message is the
  rendering of the whole dictionary.\<close>

theorem error_status_raises_APIError_witness:
  "get (answers not_found_json) plain_api
        ''/api/v1/events/42'' []
     = Inl (APIError 404 ''{'detail': 'not found'}'' (VDict [(''detail'', VStr ''not found'')]))"
proof -
  have r: "py_repr (VDict [(''detail'', VStr ''not found'')]) = ''{'detail': 'not found'}''"
    by (simp add: repr_str_def str_quote_def repr_char_def printable_def)
  show ?thesis
    using opened_plain client_plain r
      answers_plain [of not_found_json "''GET''" "''/api/v1/events/42''" "[(''params'', VNone)]"]
      error_status_raises_APIError
        [where send = "answers not_found_json"
           and self = plain_api
           and c = plain_client
           and verb = "''GET''" and p = "''/api/v1/events/42''"
           and kwargs = "[(''params'', VNone)]" and r = not_found_json
           and v = "VDict [(''detail'', VStr ''not found'')]" and m = "[]"]
    by (simp add: get_def not_found_json_def isinstance_str_def)
qed

text \<open>
  C5 as stated fails on its own example: for the 404 with body
  \<^verbatim>\<open>{"detail": "not found"}\<close> the message of the \<open>APIError\<close> is
  \<^verbatim>\<open>{'detail': 'not found'}\<close>, not \<^verbatim>\<open>not found\<close>.
\<close>

theorem not_found_message_counterexample:
  "get (answers not_found_json) plain_api
        ''/api/v1/events/42'' []
     = Inl (APIError 404 ''{'detail': 'not found'}'' (VDict [(''detail'', VStr ''not found'')]))
   \<and> get (answers not_found_json) plain_api
        ''/api/v1/events/42'' []
     \<noteq> Inl (APIError 404 ''not found'' (VDict [(''detail'', VStr ''not found'')]))"
  by (simp add: get_def request_def plain_api_def plain_client_def client_request_def answers_def not_found_json_def is_error_def isinstance_str_def
        py_str_def repr_str_def str_quote_def repr_char_def printable_def)

text \<open>
  C6, as the code has it. For a response with status 204 and an empty body, on which
  \<^verbatim>\<open>response.json()\<close> raises: \<open>request\<close> of the API client returns, and its result
  is the body text, the empty string; \<open>invite_request\<close> prints its success line and
  returns \<^verbatim>\<open>None\<close>. Neither raises.
\<close>

theorem no_content_returns_without_error:
  assumes "status_code r = 204" and "body_text r = []" and "json r = None"
  shows "(client self = Some c \<and> send (client_request c verb p kwargs) = Responded r \<longrightarrow>
            request send self verb p kwargs = Inr (VStr []))
       \<and> (send \<lparr>req_method = verb, req_base_url = b, req_path = p,
                  req_headers = (case headers of None \<Rightarrow> [] | Some h \<Rightarrow> h),
                  req_kwargs = [(''json'', json_payload)], req_timeout = 15\<rparr> = Responded r \<longrightarrow>
            invite_request send b verb p headers json_payload echo_flag
              = ([Secho ''Success (204 No Content)'' ''green''], Inr VNone))"
  using assms by (auto simp: request_def is_error_def invite_request_def)

theorem no_content_returns_without_error_witness:
  "status_code no_content = 204 \<and> body_text no_content = [] \<and> json no_content = None
   \<and> delete (answers no_content) plain_api
        ''/api/v1/events/42'' = Inr (VStr [])
   \<and> invite_request (answers no_content) ''https://openrsvp.kaotic.cc'' ''DELETE''
        ''/api/v1/events/42'' None VNone True
       = ([Secho ''Success (204 No Content)'' ''green''], Inr VNone)"
proof -
  have n: "status_code no_content = 204" "body_text no_content = []" "json no_content = None"
    by (simp_all add: no_content_def)
  note t = no_content_returns_without_error
     [OF n, where send = "answers no_content"
      and self = plain_api and verb = "''DELETE''"
      and p = "''/api/v1/events/42''" and kwargs = "[]" and headers = None
      and json_payload = VNone and echo_flag = True and b = "''https://openrsvp.kaotic.cc''"
      and c = plain_client]
  show ?thesis
    using opened_plain client_plain n t by (simp add: delete_def answers_def)
qed

text \<open>
  C6 as stated fails for the API client: on the 204 with an empty body its payload is
  the empty string, a value, and not the absent payload \<^verbatim>\<open>None\<close>.
\<close>

theorem no_content_payload_counterexample:
  "delete (answers no_content) plain_api
        ''/api/v1/events/42'' = Inr (VStr [])
   \<and> delete (answers no_content) plain_api
        ''/api/v1/events/42'' \<noteq> Inr VNone"
  by (simp add: delete_def request_def plain_api_def plain_client_def client_request_def answers_def no_content_def is_error_def)

end
